(* ===== verification/Prelude.thy ===== *)
theory Prelude
  imports Main "HOL-Library.Word"
begin

text \<open>
  Shared vocabulary of the development: the machine types of the BPF target
  (a 64-bit little-endian machine: pointers, \<open>unsigned long\<close> and \<open>u64\<close> are
  64-bit words, \<open>int\<close> is a 32-bit word), the named theorem collections the
  component theories fill, and the little-endian byte codec that connects the
  bytes of kernel memory with the word a C load produces.
\<close>

section \<open>Machine types\<close>

type_synonym byte = "8 word"
type_synonym addr = "64 word"
type_synonym c_int = "32 word"
type_synonym u64 = "64 word"
type_synonym c_ulong = "64 word"

text \<open>The null pointer of C is the address 0.\<close>

abbreviation NULL :: addr where
  "NULL \<equiv> 0"

section \<open>Theorem collections\<close>

named_theorems vmlinux_access_defs
  "defining equations of the accessors of vmlinux_access.c"
named_theorems core_read_simps
  "rewrite rules that evaluate a relocated field read"
named_theorems kernel_eval
  "unfolding of byte-indexed operations at numeral widths, for concrete instances"

section \<open>Little-endian byte codec\<close>

text \<open>
  \<open>le_nat bs\<close> is the number whose little-endian byte string is \<open>bs\<close>
  (first byte least significant); \<open>le_bytes n x\<close> is the \<open>n\<close>-byte
  little-endian string of \<open>x\<close> (its low \<open>8 * n\<close> bits); \<open>le_word\<close> reads a
  byte string as a word of any width, wrapping as a C load into a narrower
  object would.
\<close>

fun le_nat :: "byte list \<Rightarrow> nat" where
  "le_nat [] = 0"
| "le_nat (b # bs) = unat b + 256 * le_nat bs"

fun le_bytes :: "nat \<Rightarrow> nat \<Rightarrow> byte list" where
  "le_bytes 0 x = []"
| "le_bytes (Suc n) x = word_of_nat (x mod 256) # le_bytes n (x div 256)"

definition le_word :: "byte list \<Rightarrow> 'a::len word" where
  "le_word bs = word_of_nat (le_nat bs)"

lemma length_le_bytes [simp]: "length (le_bytes n x) = n"
  by (induction n arbitrary: x) simp_all

lemma le_nat_replicate_zero [simp]: "le_nat (replicate n 0) = 0"
  by (induction n) simp_all

lemma le_word_replicate_zero [simp]: "le_word (replicate n 0) = 0"
  by (simp add: le_word_def)

lemma le_nat_less: "le_nat bs < 256 ^ length bs"
proof (induction bs)
  case Nil
  then show ?case by simp
next
  case (Cons b bs)
  have "unat b < 256"
    using unsigned_less [of b, where ?'a = nat] by simp
  with Cons.IH show ?case by simp
qed

text \<open>Encoding then decoding keeps the low \<open>n\<close> bytes of the number.\<close>

lemma le_nat_le_bytes [simp]: "le_nat (le_bytes n x) = x mod 256 ^ n"
proof (induction n arbitrary: x)
  case 0
  then show ?case by simp
next
  case (Suc n)
  have "unat (word_of_nat (x mod 256) :: byte) = x mod 256"
    by (simp add: unat_of_nat)
  moreover have "x mod (256 * 256 ^ n) = 256 * (x div 256 mod 256 ^ n) + x mod 256"
    by (rule mod_mult2_eq)
  ultimately show ?case
    using Suc.IH [of "x div 256"] by simp
qed

text \<open>Decoding then encoding gives back the byte string.\<close>

lemma le_bytes_le_nat [simp]: "le_bytes (length bs) (le_nat bs) = bs"
proof (induction bs)
  case Nil
  then show ?case by simp
next
  case (Cons b bs)
  have lt: "unat b < 256"
    using unsigned_less [of b, where ?'a = nat] by simp
  then have "(unat b + 256 * le_nat bs) mod 256 = unat b"
    by simp
  moreover from lt have "(unat b + 256 * le_nat bs) div 256 = le_nat bs"
    by simp
  ultimately show ?case
    using Cons.IH by simp
qed

text \<open>
  A word stored in at least as many bytes as it has is read back unchanged:
  the round trip a field read relies on.
\<close>

lemma le_word_le_bytes:
  assumes "LENGTH('a) \<le> 8 * n"
  shows "le_word (le_bytes n (unat w)) = (w :: 'a::len word)"
proof -
  have "(2::nat) ^ LENGTH('a) \<le> 2 ^ (8 * n)"
    using assms by (rule power_increasing) simp
  also have "(2::nat) ^ (8 * n) = 256 ^ n"
    by (simp add: power_mult)
  finally have "unat w < 256 ^ n"
    using unsigned_less [of w, where ?'a = nat] by linarith
  then show ?thesis
    by (simp add: le_word_def)
qed

text \<open>The first \<open>k\<close> bytes of a little-endian string are the \<open>k\<close>-byte string of
  the same number: a narrower load from the start of a field truncates it.\<close>

lemma take_le_bytes: "k \<le> n \<Longrightarrow> take k (le_bytes n x) = le_bytes k x"
proof (induction n arbitrary: k x)
  case 0
  then show ?case by simp
next
  case (Suc n)
  then show ?case
    by (cases k) simp_all
qed

lemma word_of_nat_mod_len:
  "(word_of_nat (v mod 2 ^ LENGTH('a)) :: 'a::len word) = word_of_nat v"
  by (simp add: word_of_nat_eq_iff take_bit_eq_mod)

lemma le_word_le_bytes_of_nat:
  assumes "LENGTH('a) \<le> 8 * k"
  shows "(le_word (le_bytes k v) :: 'a::len word) = word_of_nat v"
proof -
  have "(2::nat) ^ LENGTH('a) dvd 2 ^ (8 * k)"
    using assms by (rule le_imp_power_dvd)
  then have dvd: "(2::nat) ^ LENGTH('a) dvd 256 ^ k"
    by (simp add: power_mult)
  have "(le_word (le_bytes k v) :: 'a word) = word_of_nat (v mod 256 ^ k mod 2 ^ LENGTH('a))"
    by (simp add: le_word_def word_of_nat_mod_len)
  also have "\<dots> = word_of_nat (v mod 2 ^ LENGTH('a))"
    using dvd by (simp add: mod_mod_cancel)
  also have "\<dots> = word_of_nat v"
    by (rule word_of_nat_mod_len)
  finally show ?thesis .
qed

text \<open>Evaluation of \<open>le_bytes\<close> at a numeral width, for concrete instances (the
  width is unfolded one byte at a time, never the value).\<close>

lemma le_bytes_numeral [kernel_eval]:
  "le_bytes (numeral k) x = word_of_nat (x mod 256) # le_bytes (pred_numeral k) (x div 256)"
  by (simp only: numeral_eq_Suc [of k] le_bytes.simps)

end
