(* ===== verification/Kernel_Memory.thy ===== *)
theory Kernel_Memory
  imports Prelude
begin

text \<open>
  Foreign (kernel) memory as the BPF program sees it, and the one primitive that
  reads it: the helper \<open>bpf_probe_read_kernel\<close>, which copies a bounded number of
  bytes with \<open>copy_from_kernel_nofault\<close> and, when the copy faults, fills the
  destination with zeros and returns \<open>-EFAULT\<close>.  Memory is a partial map from
  addresses to bytes; \<open>None\<close> marks a byte that cannot be read without a fault
  (unmapped, a user address, a non-canonical address).  The owner of the memory
  (the kernel) may change it at any time; \<open>kmem_write\<close> is such a change.
\<close>

type_synonym kmem = "addr \<Rightarrow> byte option"

section \<open>The nofault copy\<close>

text \<open>
  Byte by byte from \<open>src\<close> upwards, the address wrapping at \<open>2^64\<close> as the
  pointer arithmetic of the C code does; the first unreadable byte aborts the
  whole copy.
\<close>

fun copy_from_kernel_nofault :: "kmem \<Rightarrow> addr \<Rightarrow> nat \<Rightarrow> byte list option" where
  "copy_from_kernel_nofault m src 0 = Some []"
| "copy_from_kernel_nofault m src (Suc n) =
     (case m src of
        None \<Rightarrow> None
      | Some b \<Rightarrow> map_option (Cons b) (copy_from_kernel_nofault m (src + 1) n))"

definition EFAULT :: int where
  "EFAULT = 14"

text \<open>
  \<open>bpf_probe_read_kernel m sz unsafe_ptr\<close> returns the helper's return code and
  the \<open>sz\<close> bytes it leaves in the destination buffer.
\<close>

definition bpf_probe_read_kernel :: "kmem \<Rightarrow> nat \<Rightarrow> addr \<Rightarrow> int \<times> byte list" where
  "bpf_probe_read_kernel m sz unsafe_ptr =
     (case copy_from_kernel_nofault m unsafe_ptr sz of
        Some bs \<Rightarrow> (0, bs)
      | None \<Rightarrow> (- EFAULT, replicate sz 0))"

section \<open>Readable regions and stored byte strings\<close>

text \<open>\<open>stores m p bs\<close>: the bytes \<open>bs\<close> are readable at \<open>p\<close>, \<open>p + 1\<close>, \<dots>\<close>

fun stores :: "kmem \<Rightarrow> addr \<Rightarrow> byte list \<Rightarrow> bool" where
  "stores m p [] = True"
| "stores m p (b # bs) = (m p = Some b \<and> stores m (p + 1) bs)"

text \<open>\<open>readable m p n\<close>: the \<open>n\<close> bytes from \<open>p\<close> can be read without a fault.\<close>

fun readable :: "kmem \<Rightarrow> addr \<Rightarrow> nat \<Rightarrow> bool" where
  "readable m p 0 = True"
| "readable m p (Suc n) = (m p \<noteq> None \<and> readable m (p + 1) n)"

text \<open>\<open>kmem_write m p bs\<close>: the owner stores \<open>bs\<close> at \<open>p\<close> (the last byte first, so
  that where a string longer than the address space wraps, the first bytes win).\<close>

fun kmem_write :: "kmem \<Rightarrow> addr \<Rightarrow> byte list \<Rightarrow> kmem" where
  "kmem_write m p [] = m"
| "kmem_write m p (b # bs) = (kmem_write m (p + 1) bs)(p := Some b)"

text \<open>\<open>agree_on m m' p n\<close>: two memories hold the same bytes in the \<open>n\<close> bytes from \<open>p\<close>.\<close>

fun agree_on :: "kmem \<Rightarrow> kmem \<Rightarrow> addr \<Rightarrow> nat \<Rightarrow> bool" where
  "agree_on m m' p 0 = True"
| "agree_on m m' p (Suc n) = (m p = m' p \<and> agree_on m m' (p + 1) n)"

text \<open>The \<open>n\<close> addresses from \<open>q\<close> upwards.\<close>

definition addr_range :: "addr \<Rightarrow> nat \<Rightarrow> addr set" where
  "addr_range q n = (\<lambda>i. q + word_of_nat i) ` {..<n}"

section \<open>Properties of the copy\<close>

lemma copy_from_kernel_nofault_length:
  "copy_from_kernel_nofault m p n = Some bs \<Longrightarrow> length bs = n"
  by (induction m p n arbitrary: bs rule: copy_from_kernel_nofault.induct)
     (auto split: option.splits)

lemma copy_from_kernel_nofault_None_iff:
  "copy_from_kernel_nofault m p n = None \<longleftrightarrow> \<not> readable m p n"
  by (induction m p n rule: copy_from_kernel_nofault.induct) (auto split: option.splits)

lemma copy_from_kernel_nofault_stores:
  "copy_from_kernel_nofault m p n = Some bs \<longleftrightarrow> length bs = n \<and> stores m p bs"
proof (induction m p n arbitrary: bs rule: copy_from_kernel_nofault.induct)
  case (1 m src)
  then show ?case by auto
next
  case (2 m src n)
  then show ?case
    by (cases bs) (auto split: option.splits)
qed

lemma stores_copy_from_kernel_nofault:
  "stores m p bs \<Longrightarrow> copy_from_kernel_nofault m p (length bs) = Some bs"
  by (simp add: copy_from_kernel_nofault_stores)

lemma stores_readable: "stores m p bs \<Longrightarrow> readable m p (length bs)"
  by (induction bs arbitrary: p) auto

lemma agree_on_copy_from_kernel_nofault:
  "agree_on m m' p n \<Longrightarrow> copy_from_kernel_nofault m p n = copy_from_kernel_nofault m' p n"
  by (induction m p n rule: copy_from_kernel_nofault.induct) (auto split: option.splits)

lemma agree_on_refl [simp]: "agree_on m m p n"
  by (induction n arbitrary: p) simp_all

lemma stores_append: "stores m p (bs @ cs) \<longleftrightarrow> stores m p bs \<and> stores m (p + word_of_nat (length bs)) cs"
  by (induction bs arbitrary: p) (simp_all add: add.assoc add.commute)

lemma stores_take: "stores m p bs \<Longrightarrow> stores m p (take k bs)"
  using stores_append [of m p "take k bs" "drop k bs"] by simp

section \<open>Properties of the helper\<close>

lemma bpf_probe_read_kernel_length [simp]:
  "length (snd (bpf_probe_read_kernel m n p)) = n"
  by (auto simp: bpf_probe_read_kernel_def copy_from_kernel_nofault_length
           split: option.splits)

lemma bpf_probe_read_kernel_ok:
  "stores m p bs \<Longrightarrow> bpf_probe_read_kernel m (length bs) p = (0, bs)"
  by (simp add: bpf_probe_read_kernel_def stores_copy_from_kernel_nofault)

lemma bpf_probe_read_kernel_fault:
  "\<not> readable m p n \<Longrightarrow> bpf_probe_read_kernel m n p = (- EFAULT, replicate n 0)"
  by (simp add: bpf_probe_read_kernel_def flip: copy_from_kernel_nofault_None_iff)

lemma bpf_probe_read_kernel_ret:
  "fst (bpf_probe_read_kernel m n p) = (if readable m p n then 0 else - EFAULT)"
  using copy_from_kernel_nofault_None_iff [of m p n]
  by (cases "copy_from_kernel_nofault m p n") (auto simp: bpf_probe_read_kernel_def)

lemma agree_on_bpf_probe_read_kernel:
  "agree_on m m' p n \<Longrightarrow> bpf_probe_read_kernel m n p = bpf_probe_read_kernel m' n p"
  by (simp add: bpf_probe_read_kernel_def agree_on_copy_from_kernel_nofault)

section \<open>Evaluation at numeral widths\<close>

lemma copy_from_kernel_nofault_numeral [kernel_eval]:
  "copy_from_kernel_nofault m src (numeral k) =
     (case m src of
        None \<Rightarrow> None
      | Some b \<Rightarrow> map_option (Cons b) (copy_from_kernel_nofault m (src + 1) (pred_numeral k)))"
  by (simp only: numeral_eq_Suc [of k] copy_from_kernel_nofault.simps)

lemma readable_numeral [kernel_eval]:
  "readable m p (numeral k) = (m p \<noteq> None \<and> readable m (p + 1) (pred_numeral k))"
  by (simp only: numeral_eq_Suc [of k] readable.simps)

lemma agree_on_numeral [kernel_eval]:
  "agree_on m m' p (numeral k) = (m p = m' p \<and> agree_on m m' (p + 1) (pred_numeral k))"
  by (simp only: numeral_eq_Suc [of k] agree_on.simps)

section \<open>Writes of the kernel\<close>

lemma addr_range_Suc: "a \<in> addr_range q (Suc n) \<longleftrightarrow> a = q \<or> a \<in> addr_range (q + 1) n"
proof
  assume "a \<in> addr_range q (Suc n)"
  then obtain i where i: "i < Suc n" and a: "a = q + word_of_nat i"
    by (auto simp: addr_range_def)
  show "a = q \<or> a \<in> addr_range (q + 1) n"
  proof (cases i)
    case 0
    with a show ?thesis by simp
  next
    case (Suc j)
    with i a have "j < n" and "a = q + 1 + word_of_nat j"
      by (simp_all add: ac_simps)
    then show ?thesis
      unfolding addr_range_def by blast
  qed
next
  assume "a = q \<or> a \<in> addr_range (q + 1) n"
  then show "a \<in> addr_range q (Suc n)"
  proof
    assume "a = q"
    then show ?thesis
      unfolding addr_range_def by (intro image_eqI [of _ _ 0]) simp_all
  next
    assume "a \<in> addr_range (q + 1) n"
    then obtain j where "j < n" and "a = q + 1 + word_of_nat j"
      by (auto simp: addr_range_def)
    then show ?thesis
      unfolding addr_range_def by (intro image_eqI [of _ _ "Suc j"]) (simp_all add: ac_simps)
  qed
qed

lemma kmem_write_outside:
  "a \<notin> addr_range q (length bs) \<Longrightarrow> kmem_write m q bs a = m a"
  by (induction bs arbitrary: q) (simp_all add: addr_range_Suc)

lemma stores_cong:
  "(\<And>a. a \<in> addr_range p (length cs) \<Longrightarrow> m a = m' a) \<Longrightarrow> stores m p cs = stores m' p cs"
  by (induction cs arbitrary: p) (simp_all add: addr_range_Suc)

text \<open>A write elsewhere leaves a stored byte string in place.\<close>

lemma stores_fun_upd_outside:
  "a \<notin> addr_range p (length cs) \<Longrightarrow> stores (m(a := x)) p cs = stores m p cs"
  by (rule stores_cong) auto

lemma stores_kmem_write_other:
  "stores m p cs \<Longrightarrow> addr_range p (length cs) \<inter> addr_range q (length bs) = {} \<Longrightarrow>
   stores (kmem_write m q bs) p cs"
  using stores_cong [of p cs "kmem_write m q bs" m] kmem_write_outside [of _ q bs m] by blast

text \<open>Ranges that do not wrap around the address space and are apart as numbers
  are disjoint.\<close>

lemma unat_add_no_wrap:
  "unat q + i < 2 ^ 64 \<Longrightarrow> unat (q + word_of_nat i :: addr) = unat q + i"
  by (simp add: unat_word_ariths unat_of_nat)

lemma addr_range_disjoint:
  assumes "unat q1 + n1 \<le> unat q2" and "unat q2 + n2 \<le> 2 ^ 64"
  shows "addr_range q1 n1 \<inter> addr_range q2 n2 = {}"
proof (rule ccontr)
  assume "addr_range q1 n1 \<inter> addr_range q2 n2 \<noteq> {}"
  then obtain i j where i: "i < n1" and j: "j < n2"
    and eq: "q1 + word_of_nat i = (q2 + word_of_nat j :: addr)"
    by (auto simp: addr_range_def)
  have "unat (q1 + word_of_nat i) = unat q1 + i"
    using assms i j by (intro unat_add_no_wrap) linarith
  moreover have "unat (q2 + word_of_nat j) = unat q2 + j"
    using assms j by (intro unat_add_no_wrap) linarith
  ultimately show False
    using eq assms(1) i by simp
qed

text \<open>A byte string shorter than the address space is read back where it was
  written.\<close>

lemma stores_kmem_write_same:
  "length bs < 2 ^ 64 \<Longrightarrow> stores (kmem_write m q bs) q bs"
proof (induction bs arbitrary: q)
  case Nil
  then show ?case by simp
next
  case (Cons b bs)
  have "q \<notin> addr_range (q + 1) (length bs)"
  proof
    assume "q \<in> addr_range (q + 1) (length bs)"
    then obtain i where i: "i < length bs" and "q = q + 1 + word_of_nat i"
      by (auto simp: addr_range_def)
    then have "(word_of_nat (Suc i) :: addr) = 0"
      by (simp add: ac_simps)
    then have "Suc i mod 2 ^ 64 = 0"
      using unat_of_nat [of "Suc i", where 'a = 64] by simp
    moreover have "Suc i < 2 ^ 64"
      using Cons.prems i by simp
    ultimately show False
      by simp
  qed
  moreover have "stores (kmem_write m (q + 1) bs) (q + 1) bs"
    using Cons by simp
  ultimately have "stores ((kmem_write m (q + 1) bs)(q := Some b)) (q + 1) bs"
    using stores_fun_upd_outside [of q "q + 1" bs "kmem_write m (q + 1) bs" "Some b"] by blast
  then show ?case
    by (simp only: kmem_write.simps stores.simps fun_upd_same simp_thms)
qed

end
