(* ===== verification/Core_Reloc.thy ===== *)
theory Core_Reloc
  imports Prelude
begin

text \<open>
  CO-RE field relocation (libbpf, \<open>bpf_core_calc_field_relo\<close>): a field access
  of the BPF program is written against the build-time layout (the local BTF of
  \<open>vmlinux.h\<close>) and is resolved, when the program is loaded, against the layout of
  the running kernel (the target BTF).  An access names a root structure type
  and a path of member names through structures embedded by value
  (\<open>f_path.mnt\<close>, \<open>children.next\<close>, \<open>live.counter\<close>); its relocation is the
  byte offset of the last member in the target layout.  A member is found by
  name, and local and target members must be of compatible kinds: both
  pointers, both integers (of any width) or both structures.  An access that
  cannot be resolved poisons its instruction, and the verifier then rejects
  the program: the whole load fails, naming the access.
\<close>

section \<open>Layouts\<close>

text \<open>The structure types the accessors of \<open>vmlinux_access.h\<close> read.\<close>

datatype ctype =
    Cgroup | Kernfs_node | File | Path | Linux_binprm | Signal_struct | Atomic_t
  | Mm_struct | Task_struct | List_head

text \<open>The type of a member: an embedded structure, an integer of the given byte
  width, or a pointer (8 bytes on the 64-bit target).\<close>

datatype member_type = Struct ctype | Integer nat | Pointer

text \<open>A layout (a BTF): for a structure type and a member name, the member's byte
  offset in the structure and its type.\<close>

type_synonym btf = "ctype \<Rightarrow> string \<Rightarrow> (nat \<times> member_type) option"

text \<open>A field access: the root structure type and the member path.\<close>

type_synonym access = "ctype \<times> string list"

text \<open>The relocated program: the resolved target offset of each access.\<close>

type_synonym reloc = "access \<Rightarrow> nat"

datatype reloc_error = Reloc_failed access

section \<open>Resolving one access\<close>

fun member_compat :: "member_type \<Rightarrow> member_type \<Rightarrow> bool" where
  "member_compat (Struct _) (Struct _) = True"
| "member_compat (Integer _) (Integer _) = True"
| "member_compat Pointer Pointer = True"
| "member_compat _ _ = False"

text \<open>
  \<open>field_reloc lb tb ls ts fs\<close> walks the path \<open>fs\<close> through the local type
  \<open>ls\<close> and the target type \<open>ts\<close> side by side, adding up the target offsets;
  the walk continues only through embedded structures, and the path must end at
  a member (not at an intermediate structure).
\<close>

fun field_reloc :: "btf \<Rightarrow> btf \<Rightarrow> ctype \<Rightarrow> ctype \<Rightarrow> string list \<Rightarrow> nat option" where
  "field_reloc lb tb ls ts [] = None"
| "field_reloc lb tb ls ts (f # fs) =
     (case (lb ls f, tb ts f) of
        (Some (_, lt), Some (off, tt)) \<Rightarrow>
          if \<not> member_compat lt tt then None
          else if fs = [] then Some off
          else (case (lt, tt) of
                  (Struct ls', Struct ts') \<Rightarrow> map_option ((+) off) (field_reloc lb tb ls' ts' fs)
                | _ \<Rightarrow> None)
      | _ \<Rightarrow> None)"

definition core_field_offset :: "btf \<Rightarrow> btf \<Rightarrow> access \<Rightarrow> nat option" where
  "core_field_offset lb tb a = field_reloc lb tb (fst a) (fst a) (snd a)"

text \<open>The type of the member an access ends at, in a layout.\<close>

fun path_type :: "btf \<Rightarrow> ctype \<Rightarrow> string list \<Rightarrow> member_type option" where
  "path_type b t [] = None"
| "path_type b t (f # fs) =
     (case b t f of
        None \<Rightarrow> None
      | Some (_, mt) \<Rightarrow>
          if fs = [] then Some mt
          else (case mt of Struct t' \<Rightarrow> path_type b t' fs | _ \<Rightarrow> None))"

text \<open>The offset of a path in one layout alone: where the target kernel keeps the
  field, independently of any relocation.\<close>

fun path_offset :: "btf \<Rightarrow> ctype \<Rightarrow> string list \<Rightarrow> nat option" where
  "path_offset b t [] = None"
| "path_offset b t (f # fs) =
     (case b t f of
        None \<Rightarrow> None
      | Some (off, mt) \<Rightarrow>
          if fs = [] then Some off
          else (case mt of Struct t' \<Rightarrow> map_option ((+) off) (path_offset b t' fs) | _ \<Rightarrow> None))"

section \<open>Relocating the program\<close>

text \<open>
  All relocations of a program, in order; the first that fails makes the load
  fail.  On success the table maps each access to its target offset.
\<close>

fun core_relocate :: "btf \<Rightarrow> btf \<Rightarrow> access list \<Rightarrow> reloc_error + reloc" where
  "core_relocate lb tb [] = Inr (\<lambda>_. 0)"
| "core_relocate lb tb (a # as) =
     (case core_field_offset lb tb a of
        None \<Rightarrow> Inl (Reloc_failed a)
      | Some off \<Rightarrow>
          (case core_relocate lb tb as of
             Inl e \<Rightarrow> Inl e
           | Inr r \<Rightarrow> Inr (r(a := off))))"

section \<open>Properties of the resolution\<close>

text \<open>A resolved offset is the target layout's own offset of the field.\<close>

lemma field_reloc_path_offset:
  "field_reloc lb tb ls ts fs = Some off \<Longrightarrow> path_offset tb ts fs = Some off"
proof (induction lb tb ls ts fs arbitrary: off rule: field_reloc.induct)
  case (1 lb tb ls ts)
  then show ?case by simp
next
  case (2 lb tb ls ts f fs)
  then show ?case
    by (auto split: option.splits if_splits member_type.splits prod.splits)
qed

text \<open>A resolved access ends at a member whose kind matches the local one.\<close>

lemma field_reloc_compat:
  "field_reloc lb tb ls ts fs = Some off \<Longrightarrow>
   \<exists>lt tt. path_type lb ls fs = Some lt \<and> path_type tb ts fs = Some tt \<and> member_compat lt tt"
proof (induction lb tb ls ts fs arbitrary: off rule: field_reloc.induct)
  case (1 lb tb ls ts)
  then show ?case by simp
next
  case (2 lb tb ls ts f fs)
  then show ?case
    by (auto split: option.splits if_splits member_type.splits prod.splits)
qed

text \<open>Where the two layouts agree on the path, the access always resolves.\<close>

lemma field_reloc_same_layout:
  "path_offset b t fs = Some off \<Longrightarrow> field_reloc b b t t fs = Some off"
proof (induction b t fs arbitrary: off rule: path_offset.induct)
  case (1 b t)
  then show ?case by simp
next
  case (2 b t f fs)
  have compat: "member_compat mt mt" for mt
    by (cases mt) simp_all
  from 2 show ?case
    by (auto simp: compat split: option.splits if_splits member_type.splits)
qed

section \<open>Properties of the load\<close>

lemma core_relocate_Inr:
  "core_relocate lb tb as = Inr r \<Longrightarrow> a \<in> set as \<Longrightarrow> core_field_offset lb tb a = Some (r a)"
proof (induction as arbitrary: r)
  case Nil
  then show ?case by simp
next
  case (Cons a' as)
  then show ?case
    by (cases "a = a'") (auto split: option.splits sum.splits)
qed

lemma core_relocate_Inl_iff:
  "(\<exists>e. core_relocate lb tb as = Inl e) \<longleftrightarrow> (\<exists>a \<in> set as. core_field_offset lb tb a = None)"
  by (induction as) (auto split: option.splits sum.splits)

lemma core_relocate_Inl_first:
  "core_relocate lb tb as = Inl (Reloc_failed a) \<Longrightarrow>
   a \<in> set as \<and> core_field_offset lb tb a = None"
  by (induction as) (auto split: option.splits sum.splits)

lemma core_relocate_ok:
  "\<forall>a \<in> set as. core_field_offset lb tb a \<noteq> None \<Longrightarrow> \<exists>r. core_relocate lb tb as = Inr r"
  by (induction as) (auto split: option.splits sum.splits)

text \<open>After a successful load, every relocated access reads at the offset the
  target layout gives the field.\<close>

lemma core_relocate_target_offset:
  "core_relocate lb tb as = Inr r \<Longrightarrow> a \<in> set as \<Longrightarrow> path_offset tb (fst a) (snd a) = Some (r a)"
  using core_relocate_Inr [of lb tb as r a] field_reloc_path_offset
  by (simp add: core_field_offset_def)

end
