(* ===== verification/Core_Read.thy ===== *)
theory Core_Read
  imports Kernel_Memory Core_Reloc
begin

text \<open>
  The relocatable field reader, libbpf's \<open>BPF_CORE_READ(src, a)\<close> macro for a
  single access (\<open>bpf_core_read.h\<close>): it declares a local \<open>__r\<close> of the
  field's build-time type, calls
  \<open>bpf_probe_read_kernel(&__r, sizeof(__r), &src->a)\<close> with the address of the
  field computed from the relocated offset, ignores the helper's return code and
  yields \<open>__r\<close>.  The result type \<open>'a word\<close> is the field's build-time type, so
  the read is \<open>LENGTH('a) div 8\<close> bytes wide; the offset comes from the relocation
  table of the loaded program.
\<close>

definition BPF_CORE_READ :: "reloc \<Rightarrow> kmem \<Rightarrow> addr \<Rightarrow> access \<Rightarrow> 'a::len word" where
  "BPF_CORE_READ r m src a =
     le_word (snd (bpf_probe_read_kernel m (LENGTH('a) div 8) (src + word_of_nat (r a))))"

text \<open>The address the read starts at.\<close>

abbreviation field_addr :: "reloc \<Rightarrow> addr \<Rightarrow> access \<Rightarrow> addr" where
  "field_addr r src a \<equiv> src + word_of_nat (r a)"

section \<open>Evaluation rules\<close>

text \<open>Either the copy succeeds and its bytes are decoded, or the result is 0.\<close>

lemma BPF_CORE_READ_cases:
  "(BPF_CORE_READ r m src a :: 'a::len word) =
     (case copy_from_kernel_nofault m (field_addr r src a) (LENGTH('a) div 8) of
        Some bs \<Rightarrow> le_word bs
      | None \<Rightarrow> 0)"
  by (simp add: BPF_CORE_READ_def bpf_probe_read_kernel_def split: option.split)

lemma BPF_CORE_READ_fault [core_read_simps]:
  "\<not> readable m (field_addr r src a) (LENGTH('a) div 8) \<Longrightarrow>
   (BPF_CORE_READ r m src a :: 'a::len word) = 0"
  by (simp add: BPF_CORE_READ_def bpf_probe_read_kernel_fault)

lemma BPF_CORE_READ_bytes [core_read_simps]:
  "stores m (field_addr r src a) bs \<Longrightarrow> length bs = LENGTH('a) div 8 \<Longrightarrow>
   (BPF_CORE_READ r m src a :: 'a::len word) = le_word bs"
  using bpf_probe_read_kernel_ok [of m _ bs] by (simp add: BPF_CORE_READ_def)

text \<open>
  The field holds the \<open>n\<close>-byte little-endian encoding of \<open>v\<close>, at least as wide
  as the build-time type: the read yields \<open>v\<close> at the result's width (truncated
  when the running kernel's field is wider).
\<close>

lemma BPF_CORE_READ_value [core_read_simps]:
  assumes "stores m (field_addr r src a) (le_bytes n v)"
    and "LENGTH('a) div 8 \<le> n" and "8 dvd LENGTH('a::len)"
  shows "(BPF_CORE_READ r m src a :: 'a word) = word_of_nat v"
proof -
  let ?k = "LENGTH('a) div 8"
  have "stores m (field_addr r src a) (le_bytes ?k v)"
    using stores_take [OF assms(1), of ?k] assms(2) by (simp add: take_le_bytes)
  then have "(BPF_CORE_READ r m src a :: 'a word) = le_word (le_bytes ?k v)"
    by (rule BPF_CORE_READ_bytes) simp
  also have "\<dots> = word_of_nat v"
    using assms(3) by (simp add: le_word_le_bytes_of_nat)
  finally show ?thesis .
qed

text \<open>Only the bytes of the field are read: a change elsewhere in memory, by the
  kernel running concurrently, does not change the result.\<close>

lemma BPF_CORE_READ_agree:
  "agree_on m m' (field_addr r src a) (LENGTH('a) div 8) \<Longrightarrow>
   (BPF_CORE_READ r m src a :: 'a::len word) = BPF_CORE_READ r m' src a"
  by (simp add: BPF_CORE_READ_def agree_on_bpf_probe_read_kernel)

text \<open>Two loads that resolved the access to the same offset read the same bytes.\<close>

lemma BPF_CORE_READ_reloc_cong:
  "r a = r' a \<Longrightarrow> (BPF_CORE_READ r m src a :: 'a::len word) = BPF_CORE_READ r' m src a"
  by (simp add: BPF_CORE_READ_def)

end
