(* ===== verification/Vmlinux_Access.thy ===== *)
theory Vmlinux_Access
  imports Core_Read
begin

text \<open>
  The struct accessor facade, \<open>src/crates/bpf-programs/process-monitor/
  vmlinux_access.c\<close>: one function per (structure, field) pair, each returning its
  sentinel on a null handle and otherwise the result of one \<open>BPF_CORE_READ\<close>.
  Every accessor takes the relocation table of the loaded program and the kernel
  memory as explicit arguments, followed by the C parameter.  The datatype
  \<open>accessor\<close> names the nineteen functions, and \<open>call_accessor\<close> runs one of them
  and reads its C result as a mathematical integer (\<open>sint\<close> for \<open>int\<close>,
  \<open>uint\<close> for pointers and unsigned types), so that properties of all accessors
  are single theorems.
\<close>

section \<open>The accessors of vmlinux_access.c\<close>

definition ULONG_MAX :: c_ulong where
  "ULONG_MAX = 18446744073709551615"

subsection \<open>struct cgroup\<close>

definition cgroup_kn :: "reloc \<Rightarrow> kmem \<Rightarrow> addr \<Rightarrow> addr" where [vmlinux_access_defs]:
  "cgroup_kn r m cgrp = (if cgrp = 0 then 0 else BPF_CORE_READ r m cgrp (Cgroup, [''kn'']))"

subsection \<open>struct file\<close>

definition file_f_path_mnt :: "reloc \<Rightarrow> kmem \<Rightarrow> addr \<Rightarrow> addr" where [vmlinux_access_defs]:
  "file_f_path_mnt r m file =
     (if file = 0 then 0 else BPF_CORE_READ r m file (File, [''f_path'', ''mnt'']))"

definition file_f_path_dentry :: "reloc \<Rightarrow> kmem \<Rightarrow> addr \<Rightarrow> addr" where [vmlinux_access_defs]:
  "file_f_path_dentry r m file =
     (if file = 0 then 0 else BPF_CORE_READ r m file (File, [''f_path'', ''dentry'']))"

subsection \<open>struct kernfs_node\<close>

definition kernfs_node_id :: "reloc \<Rightarrow> kmem \<Rightarrow> addr \<Rightarrow> u64" where [vmlinux_access_defs]:
  "kernfs_node_id r m kn = (if kn = 0 then ULONG_MAX else BPF_CORE_READ r m kn (Kernfs_node, [''id'']))"

subsection \<open>struct linux_binprm\<close>

definition linux_binprm_file :: "reloc \<Rightarrow> kmem \<Rightarrow> addr \<Rightarrow> addr" where [vmlinux_access_defs]:
  "linux_binprm_file r m bprm =
     (if bprm = 0 then 0 else BPF_CORE_READ r m bprm (Linux_binprm, [''file'']))"

definition linux_binprm_argc :: "reloc \<Rightarrow> kmem \<Rightarrow> addr \<Rightarrow> c_int" where [vmlinux_access_defs]:
  "linux_binprm_argc r m bprm =
     (if bprm = 0 then -1 else BPF_CORE_READ r m bprm (Linux_binprm, [''argc'']))"

definition linux_binprm_filename :: "reloc \<Rightarrow> kmem \<Rightarrow> addr \<Rightarrow> addr" where [vmlinux_access_defs]:
  "linux_binprm_filename r m bprm =
     (if bprm = 0 then 0 else BPF_CORE_READ r m bprm (Linux_binprm, [''filename'']))"

subsection \<open>struct signal_struct\<close>

definition signal_struct_live_counter :: "reloc \<Rightarrow> kmem \<Rightarrow> addr \<Rightarrow> c_int" where [vmlinux_access_defs]:
  "signal_struct_live_counter r m signal =
     (if signal = 0 then -1 else BPF_CORE_READ r m signal (Signal_struct, [''live'', ''counter'']))"

subsection \<open>struct mm_struct\<close>

definition mm_struct_arg_start :: "reloc \<Rightarrow> kmem \<Rightarrow> addr \<Rightarrow> c_ulong" where [vmlinux_access_defs]:
  "mm_struct_arg_start r m mm =
     (if mm = 0 then ULONG_MAX else BPF_CORE_READ r m mm (Mm_struct, [''arg_start'']))"

definition mm_struct_arg_end :: "reloc \<Rightarrow> kmem \<Rightarrow> addr \<Rightarrow> c_ulong" where [vmlinux_access_defs]:
  "mm_struct_arg_end r m mm =
     (if mm = 0 then ULONG_MAX else BPF_CORE_READ r m mm (Mm_struct, [''arg_end'']))"

subsection \<open>struct task_struct\<close>

definition task_struct_mm :: "reloc \<Rightarrow> kmem \<Rightarrow> addr \<Rightarrow> addr" where [vmlinux_access_defs]:
  "task_struct_mm r m task = (if task = 0 then 0 else BPF_CORE_READ r m task (Task_struct, [''mm'']))"

definition task_struct_exit_code :: "reloc \<Rightarrow> kmem \<Rightarrow> addr \<Rightarrow> c_int" where [vmlinux_access_defs]:
  "task_struct_exit_code r m task =
     (if task = 0 then -1 else BPF_CORE_READ r m task (Task_struct, [''exit_code'']))"

definition task_struct_pid :: "reloc \<Rightarrow> kmem \<Rightarrow> addr \<Rightarrow> c_int" where [vmlinux_access_defs]:
  "task_struct_pid r m task = (if task = 0 then -1 else BPF_CORE_READ r m task (Task_struct, [''pid'']))"

definition task_struct_tgid :: "reloc \<Rightarrow> kmem \<Rightarrow> addr \<Rightarrow> c_int" where [vmlinux_access_defs]:
  "task_struct_tgid r m task = (if task = 0 then -1 else BPF_CORE_READ r m task (Task_struct, [''tgid'']))"

definition task_struct_parent :: "reloc \<Rightarrow> kmem \<Rightarrow> addr \<Rightarrow> addr" where [vmlinux_access_defs]:
  "task_struct_parent r m task =
     (if task = 0 then 0 else BPF_CORE_READ r m task (Task_struct, [''parent'']))"

definition task_struct_children_next :: "reloc \<Rightarrow> kmem \<Rightarrow> addr \<Rightarrow> addr" where [vmlinux_access_defs]:
  "task_struct_children_next r m task =
     (if task = 0 then 0 else BPF_CORE_READ r m task (Task_struct, [''children'', ''next'']))"

definition task_struct_sibling_next :: "reloc \<Rightarrow> kmem \<Rightarrow> addr \<Rightarrow> addr" where [vmlinux_access_defs]:
  "task_struct_sibling_next r m task =
     (if task = 0 then 0 else BPF_CORE_READ r m task (Task_struct, [''sibling'', ''next'']))"

definition task_struct_group_leader :: "reloc \<Rightarrow> kmem \<Rightarrow> addr \<Rightarrow> addr" where [vmlinux_access_defs]:
  "task_struct_group_leader r m task =
     (if task = 0 then 0 else BPF_CORE_READ r m task (Task_struct, [''group_leader'']))"

definition task_struct_signal :: "reloc \<Rightarrow> kmem \<Rightarrow> addr \<Rightarrow> addr" where [vmlinux_access_defs]:
  "task_struct_signal r m task =
     (if task = 0 then 0 else BPF_CORE_READ r m task (Task_struct, [''signal'']))"

section \<open>The accessor interface\<close>

datatype accessor =
    Cgroup_kn | File_f_path_mnt | File_f_path_dentry | Kernfs_node_id
  | Linux_binprm_file | Linux_binprm_argc | Linux_binprm_filename
  | Signal_struct_live_counter | Mm_struct_arg_start | Mm_struct_arg_end
  | Task_struct_mm | Task_struct_exit_code | Task_struct_pid | Task_struct_tgid
  | Task_struct_parent | Task_struct_children_next | Task_struct_sibling_next
  | Task_struct_group_leader | Task_struct_signal

text \<open>The C result types: a pointer, \<open>int\<close>, or a 64-bit unsigned integer.\<close>

datatype result_kind = Pointer_result | Signed_result | Unsigned_result

text \<open>All accessors, in the order of the source file.\<close>

definition vmlinux_accessors :: "accessor list" where
  "vmlinux_accessors =
     [Cgroup_kn, File_f_path_mnt, File_f_path_dentry, Kernfs_node_id,
      Linux_binprm_file, Linux_binprm_argc, Linux_binprm_filename,
      Signal_struct_live_counter, Mm_struct_arg_start, Mm_struct_arg_end,
      Task_struct_mm, Task_struct_exit_code, Task_struct_pid, Task_struct_tgid,
      Task_struct_parent, Task_struct_children_next, Task_struct_sibling_next,
      Task_struct_group_leader, Task_struct_signal]"

text \<open>The field each accessor reads (the argument of its \<open>BPF_CORE_READ\<close>).\<close>

fun accessor_access :: "accessor \<Rightarrow> access" where
  "accessor_access Cgroup_kn = (Cgroup, [''kn''])"
| "accessor_access File_f_path_mnt = (File, [''f_path'', ''mnt''])"
| "accessor_access File_f_path_dentry = (File, [''f_path'', ''dentry''])"
| "accessor_access Kernfs_node_id = (Kernfs_node, [''id''])"
| "accessor_access Linux_binprm_file = (Linux_binprm, [''file''])"
| "accessor_access Linux_binprm_argc = (Linux_binprm, [''argc''])"
| "accessor_access Linux_binprm_filename = (Linux_binprm, [''filename''])"
| "accessor_access Signal_struct_live_counter = (Signal_struct, [''live'', ''counter''])"
| "accessor_access Mm_struct_arg_start = (Mm_struct, [''arg_start''])"
| "accessor_access Mm_struct_arg_end = (Mm_struct, [''arg_end''])"
| "accessor_access Task_struct_mm = (Task_struct, [''mm''])"
| "accessor_access Task_struct_exit_code = (Task_struct, [''exit_code''])"
| "accessor_access Task_struct_pid = (Task_struct, [''pid''])"
| "accessor_access Task_struct_tgid = (Task_struct, [''tgid''])"
| "accessor_access Task_struct_parent = (Task_struct, [''parent''])"
| "accessor_access Task_struct_children_next = (Task_struct, [''children'', ''next''])"
| "accessor_access Task_struct_sibling_next = (Task_struct, [''sibling'', ''next''])"
| "accessor_access Task_struct_group_leader = (Task_struct, [''group_leader''])"
| "accessor_access Task_struct_signal = (Task_struct, [''signal''])"

fun accessor_kind :: "accessor \<Rightarrow> result_kind" where
  "accessor_kind Kernfs_node_id = Unsigned_result"
| "accessor_kind Mm_struct_arg_start = Unsigned_result"
| "accessor_kind Mm_struct_arg_end = Unsigned_result"
| "accessor_kind Linux_binprm_argc = Signed_result"
| "accessor_kind Signal_struct_live_counter = Signed_result"
| "accessor_kind Task_struct_exit_code = Signed_result"
| "accessor_kind Task_struct_pid = Signed_result"
| "accessor_kind Task_struct_tgid = Signed_result"
| "accessor_kind _ = Pointer_result"

text \<open>The relocations the compiled program carries, one per \<open>BPF_CORE_READ\<close>.\<close>

definition vmlinux_access_relos :: "access list" where
  "vmlinux_access_relos = map accessor_access vmlinux_accessors"

text \<open>The byte width of a result, \<open>sizeof\<close> of the C type.\<close>

fun result_width :: "result_kind \<Rightarrow> nat" where
  "result_width Signed_result = 4"
| "result_width _ = 8"

text \<open>The sentinel of a result kind, as an integer: the null pointer, \<open>-1\<close>, and
  \<open>ULONG_MAX\<close>.\<close>

fun sentinel :: "result_kind \<Rightarrow> int" where
  "sentinel Pointer_result = 0"
| "sentinel Signed_result = -1"
| "sentinel Unsigned_result = 18446744073709551615"

text \<open>The integer a C result of the given kind holds when the field stores the
  number \<open>v\<close>: \<open>v\<close> at the width of the result, signed for \<open>int\<close>.\<close>

fun decode_result :: "result_kind \<Rightarrow> nat \<Rightarrow> int" where
  "decode_result Signed_result v = sint (word_of_nat v :: c_int)"
| "decode_result _ v = uint (word_of_nat v :: u64)"

text \<open>One accessor call, its C result read as an integer.\<close>

fun call_accessor :: "accessor \<Rightarrow> reloc \<Rightarrow> kmem \<Rightarrow> addr \<Rightarrow> int" where
  "call_accessor Cgroup_kn r m p = uint (cgroup_kn r m p)"
| "call_accessor File_f_path_mnt r m p = uint (file_f_path_mnt r m p)"
| "call_accessor File_f_path_dentry r m p = uint (file_f_path_dentry r m p)"
| "call_accessor Kernfs_node_id r m p = uint (kernfs_node_id r m p)"
| "call_accessor Linux_binprm_file r m p = uint (linux_binprm_file r m p)"
| "call_accessor Linux_binprm_argc r m p = sint (linux_binprm_argc r m p)"
| "call_accessor Linux_binprm_filename r m p = uint (linux_binprm_filename r m p)"
| "call_accessor Signal_struct_live_counter r m p = sint (signal_struct_live_counter r m p)"
| "call_accessor Mm_struct_arg_start r m p = uint (mm_struct_arg_start r m p)"
| "call_accessor Mm_struct_arg_end r m p = uint (mm_struct_arg_end r m p)"
| "call_accessor Task_struct_mm r m p = uint (task_struct_mm r m p)"
| "call_accessor Task_struct_exit_code r m p = sint (task_struct_exit_code r m p)"
| "call_accessor Task_struct_pid r m p = sint (task_struct_pid r m p)"
| "call_accessor Task_struct_tgid r m p = sint (task_struct_tgid r m p)"
| "call_accessor Task_struct_parent r m p = uint (task_struct_parent r m p)"
| "call_accessor Task_struct_children_next r m p = uint (task_struct_children_next r m p)"
| "call_accessor Task_struct_sibling_next r m p = uint (task_struct_sibling_next r m p)"
| "call_accessor Task_struct_group_leader r m p = uint (task_struct_group_leader r m p)"
| "call_accessor Task_struct_signal r m p = uint (task_struct_signal r m p)"

text \<open>What the read of a non-null handle yields, by result kind.\<close>

fun read_result :: "result_kind \<Rightarrow> reloc \<Rightarrow> kmem \<Rightarrow> addr \<Rightarrow> access \<Rightarrow> int" where
  "read_result Signed_result r m p a = sint (BPF_CORE_READ r m p a :: c_int)"
| "read_result _ r m p a = uint (BPF_CORE_READ r m p a :: u64)"

text \<open>The C name of each accessor, as \<open>vmlinux_access.c\<close> defines it.\<close>

fun accessor_name :: "accessor \<Rightarrow> string" where
  "accessor_name Cgroup_kn = ''cgroup_kn''"
| "accessor_name File_f_path_mnt = ''file_f_path_mnt''"
| "accessor_name File_f_path_dentry = ''file_f_path_dentry''"
| "accessor_name Kernfs_node_id = ''kernfs_node_id''"
| "accessor_name Linux_binprm_file = ''linux_binprm_file''"
| "accessor_name Linux_binprm_argc = ''linux_binprm_argc''"
| "accessor_name Linux_binprm_filename = ''linux_binprm_filename''"
| "accessor_name Signal_struct_live_counter = ''signal_struct_live_counter''"
| "accessor_name Mm_struct_arg_start = ''mm_struct_arg_start''"
| "accessor_name Mm_struct_arg_end = ''mm_struct_arg_end''"
| "accessor_name Task_struct_mm = ''task_struct_mm''"
| "accessor_name Task_struct_exit_code = ''task_struct_exit_code''"
| "accessor_name Task_struct_pid = ''task_struct_pid''"
| "accessor_name Task_struct_tgid = ''task_struct_tgid''"
| "accessor_name Task_struct_parent = ''task_struct_parent''"
| "accessor_name Task_struct_children_next = ''task_struct_children_next''"
| "accessor_name Task_struct_sibling_next = ''task_struct_sibling_next''"
| "accessor_name Task_struct_group_leader = ''task_struct_group_leader''"
| "accessor_name Task_struct_signal = ''task_struct_signal''"

text \<open>The prototypes of \<open>vmlinux_access.h\<close>: name and result kind, in order.\<close>

definition vmlinux_access_h_prototypes :: "(string \<times> result_kind) list" where
  "vmlinux_access_h_prototypes =
     [(''cgroup_kn'', Pointer_result),
      (''file_f_path_mnt'', Pointer_result), (''file_f_path_dentry'', Pointer_result),
      (''kernfs_node_id'', Unsigned_result),
      (''linux_bimprm_file'', Pointer_result), (''linux_binprm_argc'', Signed_result),
      (''linux_binprm_filename'', Pointer_result),
      (''signal_struct_live_counter'', Signed_result),
      (''mm_struct_arg_start'', Unsigned_result), (''mm_struct_arg_end'', Unsigned_result),
      (''task_struct_mm'', Pointer_result), (''task_struct_exit_code'', Signed_result),
      (''task_struct_pid'', Signed_result), (''task_struct_tgid'', Signed_result),
      (''task_struct_parent'', Pointer_result), (''task_struct_children_next'', Pointer_result),
      (''task_struct_sibling_next'', Pointer_result),
      (''task_struct_group_leader'', Pointer_result), (''task_struct_signal'', Pointer_result)]"

section \<open>The template every accessor follows\<close>

text \<open>
  Each accessor is the guard \<open>if (p == 0) return sentinel;\<close> followed by one read
  of its field at its result width.
\<close>

lemma call_accessor_template:
  "call_accessor a r m p =
     (if p = 0 then sentinel (accessor_kind a)
      else read_result (accessor_kind a) r m p (accessor_access a))"
  by (cases a) (simp_all add: vmlinux_access_defs ULONG_MAX_def)

lemma accessor_in_vmlinux_accessors: "a \<in> set vmlinux_accessors"
  by (cases a) (simp_all add: vmlinux_accessors_def)

lemma accessor_access_in_relos: "accessor_access a \<in> set vmlinux_access_relos"
  by (simp add: vmlinux_access_relos_def accessor_in_vmlinux_accessors)

section \<open>Reading by result kind\<close>

lemma read_result_value:
  "stores m (field_addr r p a) (le_bytes n v) \<Longrightarrow> result_width k \<le> n \<Longrightarrow>
   read_result k r m p a = decode_result k v"
  by (cases k) (simp_all add: BPF_CORE_READ_value)

lemma read_result_fault:
  "\<not> readable m (field_addr r p a) (result_width k) \<Longrightarrow> read_result k r m p a = 0"
  by (cases k) (simp_all add: BPF_CORE_READ_fault)

lemma read_result_agree:
  "agree_on m m' (field_addr r p a) (result_width k) \<Longrightarrow>
   read_result k r m p a = read_result k r m' p a"
  by (cases k) (simp_all add: BPF_CORE_READ_agree)

lemma loaded_accessor_offset:
  "core_relocate lb tb vmlinux_access_relos = Inr r \<Longrightarrow>
   path_offset tb (fst (accessor_access a)) (snd (accessor_access a)) = Some off \<Longrightarrow>
   r (accessor_access a) = off"
  using core_relocate_target_offset [OF _ accessor_access_in_relos] by fastforce


lemma read_result_cases:
  "read_result k r m p a =
     (case copy_from_kernel_nofault m (field_addr r p a) (result_width k) of
        Some bs \<Rightarrow> decode_result k (le_nat bs)
      | None \<Rightarrow> 0)"
  by (cases k) (simp_all add: BPF_CORE_READ_cases le_word_def split: option.split)

text \<open>A loaded accessor on a non-null handle reads the field where the running
  kernel keeps it.\<close>

lemma loaded_call_value:
  assumes "core_relocate lb tb vmlinux_access_relos = Inr r" and "p \<noteq> 0"
    and "path_offset tb (fst (accessor_access a)) (snd (accessor_access a)) = Some off"
    and "stores m (p + word_of_nat off) (le_bytes n v)"
    and "result_width (accessor_kind a) \<le> n"
  shows "call_accessor a r m p = decode_result (accessor_kind a) v"
proof -
  from assms(1,3) have "r (accessor_access a) = off"
    by (rule loaded_accessor_offset)
  with assms(2,4,5) show ?thesis
    by (simp add: call_accessor_template read_result_value)
qed

section \<open>Properties of the facade\<close>

text \<open>
  C1. Every accessor, given the null handle, returns its documented sentinel: the
  null pointer, \<open>-1\<close> or \<open>ULONG_MAX\<close>; the result depends neither on the memory
  nor on the relocations, so no read is attempted.
\<close>

theorem accessor_null_sentinel: "call_accessor a r m 0 = sentinel (accessor_kind a)"
  by (simp add: call_accessor_template)

text \<open>
  C2. The whole behaviour of a loaded accessor: the sentinel on a null handle;
  otherwise one copy of the field's bytes at the offset the running kernel's
  layout gives it, decoded at the result's width when the copy succeeds, and 0
  when it faults.
\<close>

theorem accessor_loaded_behaviour:
  assumes "core_relocate lb tb vmlinux_access_relos = Inr r"
    and "path_offset tb (fst (accessor_access a)) (snd (accessor_access a)) = Some off"
  shows "call_accessor a r m p =
     (if p = 0 then sentinel (accessor_kind a)
      else (case copy_from_kernel_nofault m (p + word_of_nat off) (result_width (accessor_kind a)) of
              Some bs \<Rightarrow> decode_result (accessor_kind a) (le_nat bs)
            | None \<Rightarrow> 0))"
proof -
  from assms have "r (accessor_access a) = off"
    by (rule loaded_accessor_offset)
  then show ?thesis
    by (simp add: call_accessor_template read_result_cases)
qed

text \<open>
  C3. Given a non-null handle whose field, at the offset of the running kernel's
  layout, holds the little-endian encoding of \<open>v\<close> in at least as many bytes as
  the accessor's result type, the loaded accessor returns \<open>v\<close> at that type.
\<close>

theorem accessor_reads_stored_field:
  assumes "core_relocate lb tb vmlinux_access_relos = Inr r" and "p \<noteq> 0"
    and "path_offset tb (fst (accessor_access a)) (snd (accessor_access a)) = Some off"
    and "stores m (p + word_of_nat off) (le_bytes n v)"
    and "result_width (accessor_kind a) \<le> n"
  shows "call_accessor a r m p = decode_result (accessor_kind a) v"
  using assms by (rule loaded_call_value)

text \<open>
  C4. When the field of a non-null handle cannot be read, the accessor returns 0,
  the zero-filled buffer of the helper: the pointer sentinel for pointer
  accessors, but a value distinct from the sentinel (\<open>-1\<close>, \<open>ULONG_MAX\<close>) for the
  integer accessors.
\<close>

theorem accessor_fault_returns_zero:
  assumes "core_relocate lb tb vmlinux_access_relos = Inr r" and "p \<noteq> 0"
    and "path_offset tb (fst (accessor_access a)) (snd (accessor_access a)) = Some off"
    and "\<not> readable m (p + word_of_nat off) (result_width (accessor_kind a))"
  shows "call_accessor a r m p = 0 \<and>
         (call_accessor a r m p = sentinel (accessor_kind a) \<longleftrightarrow> accessor_kind a = Pointer_result)"
proof -
  from assms(1,3) have "r (accessor_access a) = off"
    by (rule loaded_accessor_offset)
  with assms(2,4) have "call_accessor a r m p = 0"
    by (simp add: call_accessor_template read_result_fault)
  moreover have "sentinel k = 0 \<longleftrightarrow> k = Pointer_result" for k
    by (cases k) simp_all
  ultimately show ?thesis
    by metis
qed

text \<open>
  C5. An accessor reads nothing but its field: two memories that agree on the
  bytes of the field give the same result, whatever the kernel changes
  elsewhere concurrently.
\<close>

theorem accessor_frame:
  "agree_on m m' (field_addr r p (accessor_access a)) (result_width (accessor_kind a)) \<Longrightarrow>
   call_accessor a r m p = call_accessor a r m' p"
  by (simp add: call_accessor_template read_result_agree)

text \<open>
  With every accessor linked into the loaded program, a failed load names the
  access of one of them, one with no counterpart in the running kernel's layout:
  a missing field never reaches an accessor as a sentinel.
\<close>

lemma vmlinux_load_failure:
  "core_relocate lb tb vmlinux_access_relos = Inl e \<Longrightarrow>
   \<exists>a. e = Reloc_failed (accessor_access a) \<and> core_field_offset lb tb (accessor_access a) = None"
proof (cases e)
  case (Reloc_failed acc)
  assume "core_relocate lb tb vmlinux_access_relos = Inl e"
  with Reloc_failed have "acc \<in> set vmlinux_access_relos" and none: "core_field_offset lb tb acc = None"
    using core_relocate_Inl_first by blast+
  then obtain a where "acc = accessor_access a"
    by (auto simp: vmlinux_access_relos_def)
  with Reloc_failed none show ?thesis
    by blast
qed

text \<open>
  The header and the implementation disagree on exactly one name: the header
  declares \<open>linux_bimprm_file\<close>, which nothing defines, and the file defines
  \<open>linux_binprm_file\<close>, which no prototype declares; every other accessor is
  declared with the result type it is defined with.
\<close>

lemma header_matches_definitions:
  "filter (\<lambda>n. n \<notin> set (map accessor_name vmlinux_accessors)) (map fst vmlinux_access_h_prototypes)
     = [''linux_bimprm_file''] \<and>
   filter (\<lambda>n. n \<notin> set (map fst vmlinux_access_h_prototypes)) (map accessor_name vmlinux_accessors)
     = [''linux_binprm_file''] \<and>
   (\<forall>a. accessor_name a = ''linux_binprm_file'' \<or>
        map_of vmlinux_access_h_prototypes (accessor_name a) = Some (accessor_kind a))"
proof -
  have "filter (\<lambda>n. n \<notin> set (map accessor_name vmlinux_accessors))
      (map fst vmlinux_access_h_prototypes) = [''linux_bimprm_file'']"
    by (simp add: vmlinux_access_h_prototypes_def vmlinux_accessors_def)
  moreover have "filter (\<lambda>n. n \<notin> set (map fst vmlinux_access_h_prototypes))
      (map accessor_name vmlinux_accessors) = [''linux_binprm_file'']"
    by (simp add: vmlinux_access_h_prototypes_def vmlinux_accessors_def)
  moreover have "\<forall>a. accessor_name a = ''linux_binprm_file'' \<or>
      map_of vmlinux_access_h_prototypes (accessor_name a) = Some (accessor_kind a)"
  proof
    fix a
    show "accessor_name a = ''linux_binprm_file'' \<or>
        map_of vmlinux_access_h_prototypes (accessor_name a) = Some (accessor_kind a)"
      by (cases a) (simp_all add: vmlinux_access_h_prototypes_def)
  qed
  ultimately show ?thesis
    by blast
qed

end
