(* ===== verification/Kernel_Objects.thy ===== *)
theory Kernel_Objects
  imports Vmlinux_Access
begin

text \<open>
  The abstract specification the accessors implement.  The kernel's objects are
  records holding the fields the accessors read, one record per structure of
  the specification's data model; a kernel state maps addresses to objects.  The
  accessor specification \<open>accessor_spec\<close> says what an accessor promises: its
  sentinel on the null handle, and the field of the object at a non-null handle.
  The representation \<open>objects_repr\<close> says how a running kernel keeps the objects:
  each field, at the offset its layout gives it, holds the little-endian bytes of
  its value.  The refinement theorem: after a successful load, every accessor
  returns what the specification promises, on every kernel state the memory
  represents.  \<open>write_fields\<close> is the kernel storing an object into memory, and
  \<open>write_objects\<close> several; under a well-formed layout (\<open>fields_wf\<close>,
  \<open>objects_apart\<close>) what was written is what the accessors read back.
\<close>

section \<open>Kernel objects\<close>

record task_obj =
  tsk_mm :: addr
  tsk_exit_code :: c_int
  tsk_pid :: c_int
  tsk_tgid :: c_int
  tsk_parent :: addr
  tsk_children_next :: addr
  tsk_sibling_next :: addr
  tsk_group_leader :: addr
  tsk_signal :: addr

record mm_obj =
  mm_arg_start :: c_ulong
  mm_arg_end :: c_ulong

record signal_obj =
  sig_live_counter :: c_int

record binprm_obj =
  bprm_file :: addr
  bprm_argc :: c_int
  bprm_filename :: addr

record file_obj =
  file_mnt :: addr
  file_dentry :: addr

record cgroup_obj =
  cgrp_kn :: addr

record kernfs_obj =
  kn_id :: u64

record kernel_objects =
  ko_tasks :: "addr \<rightharpoonup> task_obj"
  ko_mms :: "addr \<rightharpoonup> mm_obj"
  ko_signals :: "addr \<rightharpoonup> signal_obj"
  ko_bprms :: "addr \<rightharpoonup> binprm_obj"
  ko_files :: "addr \<rightharpoonup> file_obj"
  ko_cgroups :: "addr \<rightharpoonup> cgroup_obj"
  ko_kernfs :: "addr \<rightharpoonup> kernfs_obj"

section \<open>How the kernel keeps an object in memory\<close>

text \<open>The image of one field: its member path, its byte width and the number its
  bytes encode.\<close>

type_synonym field_image = "string list \<times> nat \<times> nat"

definition task_fields :: "task_obj \<Rightarrow> field_image list" where
  "task_fields t =
     [([''mm''], 8, unat (tsk_mm t)), ([''exit_code''], 4, unat (tsk_exit_code t)),
      ([''pid''], 4, unat (tsk_pid t)), ([''tgid''], 4, unat (tsk_tgid t)),
      ([''parent''], 8, unat (tsk_parent t)),
      ([''children'', ''next''], 8, unat (tsk_children_next t)),
      ([''sibling'', ''next''], 8, unat (tsk_sibling_next t)),
      ([''group_leader''], 8, unat (tsk_group_leader t)), ([''signal''], 8, unat (tsk_signal t))]"

definition mm_fields :: "mm_obj \<Rightarrow> field_image list" where
  "mm_fields x = [([''arg_start''], 8, unat (mm_arg_start x)), ([''arg_end''], 8, unat (mm_arg_end x))]"

definition signal_fields :: "signal_obj \<Rightarrow> field_image list" where
  "signal_fields x = [([''live'', ''counter''], 4, unat (sig_live_counter x))]"

definition binprm_fields :: "binprm_obj \<Rightarrow> field_image list" where
  "binprm_fields x =
     [([''file''], 8, unat (bprm_file x)), ([''argc''], 4, unat (bprm_argc x)),
      ([''filename''], 8, unat (bprm_filename x))]"

definition file_fields :: "file_obj \<Rightarrow> field_image list" where
  "file_fields x =
     [([''f_path'', ''mnt''], 8, unat (file_mnt x)), ([''f_path'', ''dentry''], 8, unat (file_dentry x))]"

definition cgroup_fields :: "cgroup_obj \<Rightarrow> field_image list" where
  "cgroup_fields x = [([''kn''], 8, unat (cgrp_kn x))]"

definition kernfs_fields :: "kernfs_obj \<Rightarrow> field_image list" where
  "kernfs_fields x = [([''id''], 8, unat (kn_id x))]"

text \<open>The field images of the object of a structure type at an address; the
  structures that only occur embedded (\<open>path\<close>, \<open>atomic_t\<close>, \<open>list_head\<close>) are
  never objects of their own here.\<close>

fun obj_fields :: "kernel_objects \<Rightarrow> ctype \<Rightarrow> addr \<Rightarrow> field_image list option" where
  "obj_fields k Task_struct p = map_option task_fields (ko_tasks k p)"
| "obj_fields k Mm_struct p = map_option mm_fields (ko_mms k p)"
| "obj_fields k Signal_struct p = map_option signal_fields (ko_signals k p)"
| "obj_fields k Linux_binprm p = map_option binprm_fields (ko_bprms k p)"
| "obj_fields k File p = map_option file_fields (ko_files k p)"
| "obj_fields k Cgroup p = map_option cgroup_fields (ko_cgroups k p)"
| "obj_fields k Kernfs_node p = map_option kernfs_fields (ko_kernfs k p)"
| "obj_fields k Path p = None"
| "obj_fields k Atomic_t p = None"
| "obj_fields k List_head p = None"

definition fields_repr :: "btf \<Rightarrow> kmem \<Rightarrow> addr \<Rightarrow> ctype \<Rightarrow> field_image list \<Rightarrow> bool" where
  "fields_repr tb m p ty fs =
     list_all (\<lambda>(path, w, v). case path_offset tb ty path of
                               None \<Rightarrow> False
                             | Some off \<Rightarrow> stores m (p + word_of_nat off) (le_bytes w v)) fs"

definition objects_repr :: "btf \<Rightarrow> kernel_objects \<Rightarrow> kmem \<Rightarrow> bool" where
  "objects_repr tb k m \<longleftrightarrow> (\<forall>ty p fs. obj_fields k ty p = Some fs \<longrightarrow> fields_repr tb m p ty fs)"

text \<open>The kernel storing the fields of an object at \<open>p\<close>, one after the other.\<close>

fun write_fields :: "btf \<Rightarrow> kmem \<Rightarrow> addr \<Rightarrow> ctype \<Rightarrow> field_image list \<Rightarrow> kmem" where
  "write_fields tb m p ty [] = m"
| "write_fields tb m p ty ((path, w, v) # fs) =
     (case path_offset tb ty path of
        None \<Rightarrow> write_fields tb m p ty fs
      | Some off \<Rightarrow> write_fields tb (kmem_write m (p + word_of_nat off) (le_bytes w v)) p ty fs)"

text \<open>
  A layout is well formed for an object at \<open>p\<close> when every field resolves, no two
  fields overlap, and no field wraps around the end of the address space: what
  the kernel's structure layouts guarantee.
\<close>

fun fields_wf :: "btf \<Rightarrow> addr \<Rightarrow> ctype \<Rightarrow> field_image list \<Rightarrow> bool" where
  "fields_wf tb p ty [] = True"
| "fields_wf tb p ty ((path, w, v) # fs) =
     (case path_offset tb ty path of
        None \<Rightarrow> False
      | Some off \<Rightarrow>
          unat p + off + w < 2 ^ 64 \<and>
          list_all (\<lambda>(path', w', v'). case path_offset tb ty path' of
                                        None \<Rightarrow> False
                                      | Some off' \<Rightarrow> off + w \<le> off' \<or> off' + w' \<le> off) fs \<and>
          fields_wf tb p ty fs)"

text \<open>The number of bytes from the start of the object to the end of its last field.\<close>

fun fields_extent :: "btf \<Rightarrow> ctype \<Rightarrow> field_image list \<Rightarrow> nat" where
  "fields_extent tb ty [] = 0"
| "fields_extent tb ty ((path, w, v) # fs) =
     max (case path_offset tb ty path of None \<Rightarrow> 0 | Some off \<Rightarrow> off + w) (fields_extent tb ty fs)"

text \<open>The kernel writing several objects, one after the other, and the condition
  that they lie in ascending order of address, each well formed and ending
  before the next begins.\<close>

type_synonym object_image = "addr \<times> ctype \<times> field_image list"

fun write_objects :: "btf \<Rightarrow> kmem \<Rightarrow> object_image list \<Rightarrow> kmem" where
  "write_objects tb m [] = m"
| "write_objects tb m ((p, ty, fs) # os) = write_objects tb (write_fields tb m p ty fs) os"

fun objects_apart :: "btf \<Rightarrow> object_image list \<Rightarrow> bool" where
  "objects_apart tb [] = True"
| "objects_apart tb ((p, ty, fs) # os) =
     (fields_wf tb p ty fs \<and>
      list_all (\<lambda>(q, ty', gs). unat p + fields_extent tb ty fs \<le> unat q) os \<and>
      objects_apart tb os)"

section \<open>The specification of the accessors\<close>

fun field_spec :: "accessor \<Rightarrow> kernel_objects \<Rightarrow> addr \<Rightarrow> int option" where
  "field_spec Cgroup_kn k p = map_option (\<lambda>x. uint (cgrp_kn x)) (ko_cgroups k p)"
| "field_spec File_f_path_mnt k p = map_option (\<lambda>x. uint (file_mnt x)) (ko_files k p)"
| "field_spec File_f_path_dentry k p = map_option (\<lambda>x. uint (file_dentry x)) (ko_files k p)"
| "field_spec Kernfs_node_id k p = map_option (\<lambda>x. uint (kn_id x)) (ko_kernfs k p)"
| "field_spec Linux_binprm_file k p = map_option (\<lambda>x. uint (bprm_file x)) (ko_bprms k p)"
| "field_spec Linux_binprm_argc k p = map_option (\<lambda>x. sint (bprm_argc x)) (ko_bprms k p)"
| "field_spec Linux_binprm_filename k p = map_option (\<lambda>x. uint (bprm_filename x)) (ko_bprms k p)"
| "field_spec Signal_struct_live_counter k p =
     map_option (\<lambda>x. sint (sig_live_counter x)) (ko_signals k p)"
| "field_spec Mm_struct_arg_start k p = map_option (\<lambda>x. uint (mm_arg_start x)) (ko_mms k p)"
| "field_spec Mm_struct_arg_end k p = map_option (\<lambda>x. uint (mm_arg_end x)) (ko_mms k p)"
| "field_spec Task_struct_mm k p = map_option (\<lambda>t. uint (tsk_mm t)) (ko_tasks k p)"
| "field_spec Task_struct_exit_code k p = map_option (\<lambda>t. sint (tsk_exit_code t)) (ko_tasks k p)"
| "field_spec Task_struct_pid k p = map_option (\<lambda>t. sint (tsk_pid t)) (ko_tasks k p)"
| "field_spec Task_struct_tgid k p = map_option (\<lambda>t. sint (tsk_tgid t)) (ko_tasks k p)"
| "field_spec Task_struct_parent k p = map_option (\<lambda>t. uint (tsk_parent t)) (ko_tasks k p)"
| "field_spec Task_struct_children_next k p =
     map_option (\<lambda>t. uint (tsk_children_next t)) (ko_tasks k p)"
| "field_spec Task_struct_sibling_next k p =
     map_option (\<lambda>t. uint (tsk_sibling_next t)) (ko_tasks k p)"
| "field_spec Task_struct_group_leader k p =
     map_option (\<lambda>t. uint (tsk_group_leader t)) (ko_tasks k p)"
| "field_spec Task_struct_signal k p = map_option (\<lambda>t. uint (tsk_signal t)) (ko_tasks k p)"

text \<open>What an accessor promises: the sentinel on null, the object's field otherwise;
  nothing for a non-null handle that is no object of the accessor's type.\<close>

definition accessor_spec :: "accessor \<Rightarrow> kernel_objects \<Rightarrow> addr \<Rightarrow> int option" where
  "accessor_spec a k p = (if p = 0 then Some (sentinel (accessor_kind a)) else field_spec a k p)"

section \<open>Field images and the specification\<close>

lemma fields_repr_member:
  "fields_repr tb m p ty fs \<Longrightarrow> (path, w, v) \<in> set fs \<Longrightarrow>
   \<exists>off. path_offset tb ty path = Some off \<and> stores m (p + word_of_nat off) (le_bytes w v)"
  by (fastforce simp: fields_repr_def list_all_iff split: option.splits)

lemma decode_result_unat:
  "decode_result Signed_result (unat (w :: c_int)) = sint w"
  "decode_result Pointer_result (unat (x :: u64)) = uint x"
  "decode_result Unsigned_result (unat (x :: u64)) = uint x"
  by simp_all

text \<open>The field an accessor reads is, in the object's image, the field the
  specification names, stored at least as wide as the accessor reads it.\<close>

lemma field_spec_image:
  "field_spec a k p = Some v \<Longrightarrow>
   \<exists>fs w x. obj_fields k (fst (accessor_access a)) p = Some fs \<and>
     (snd (accessor_access a), w, x) \<in> set fs \<and> result_width (accessor_kind a) \<le> w \<and>
     decode_result (accessor_kind a) x = v"
  by (cases a)
     (auto simp: task_fields_def mm_fields_def signal_fields_def binprm_fields_def
        file_fields_def cgroup_fields_def kernfs_fields_def decode_result_unat)

lemma objects_repr_iff:
  "objects_repr tb k m \<longleftrightarrow>
     (\<forall>p x. ko_tasks k p = Some x \<longrightarrow> fields_repr tb m p Task_struct (task_fields x)) \<and>
     (\<forall>p x. ko_mms k p = Some x \<longrightarrow> fields_repr tb m p Mm_struct (mm_fields x)) \<and>
     (\<forall>p x. ko_signals k p = Some x \<longrightarrow> fields_repr tb m p Signal_struct (signal_fields x)) \<and>
     (\<forall>p x. ko_bprms k p = Some x \<longrightarrow> fields_repr tb m p Linux_binprm (binprm_fields x)) \<and>
     (\<forall>p x. ko_files k p = Some x \<longrightarrow> fields_repr tb m p File (file_fields x)) \<and>
     (\<forall>p x. ko_cgroups k p = Some x \<longrightarrow> fields_repr tb m p Cgroup (cgroup_fields x)) \<and>
     (\<forall>p x. ko_kernfs k p = Some x \<longrightarrow> fields_repr tb m p Kernfs_node (kernfs_fields x))"
  (is "?l \<longleftrightarrow> ?r")
proof
  assume ?l
  then show ?r
    by (simp add: objects_repr_def)
next
  assume r: ?r
  show ?l
    unfolding objects_repr_def
  proof (intro allI impI)
    fix ty p fs
    assume "obj_fields k ty p = Some fs"
    with r show "fields_repr tb m p ty fs"
      by (cases ty) auto
  qed
qed

section \<open>The accessors implement the specification\<close>

lemma field_spec_call_value:
  assumes "core_relocate lb tb vmlinux_access_relos = Inr r" and "p \<noteq> 0"
    and "field_spec a k p = Some v"
    and "\<And>fs. obj_fields k (fst (accessor_access a)) p = Some fs \<Longrightarrow>
           fields_repr tb m p (fst (accessor_access a)) fs"
  shows "call_accessor a r m p = v"
proof -
  obtain fs w x where fs: "obj_fields k (fst (accessor_access a)) p = Some fs"
    and mem: "(snd (accessor_access a), w, x) \<in> set fs"
    and wd: "result_width (accessor_kind a) \<le> w"
    and dec: "decode_result (accessor_kind a) x = v"
    using field_spec_image [OF assms(3)] by blast
  from fields_repr_member [OF assms(4) [OF fs] mem] obtain off
    where po: "path_offset tb (fst (accessor_access a)) (snd (accessor_access a)) = Some off"
      and st: "stores m (p + word_of_nat off) (le_bytes w x)"
    by blast
  from loaded_call_value [OF assms(1,2) po st wd] dec show ?thesis
    by simp
qed

text \<open>
  C6. Refinement: after a successful load, on any kernel memory that represents
  a state of kernel objects under the running kernel's layout, every accessor
  returns what the specification promises: the sentinel on the null handle, and
  the field of the object at a non-null handle.
\<close>

theorem accessors_refine_spec:
  assumes "core_relocate lb tb vmlinux_access_relos = Inr r" and "objects_repr tb k m"
    and "accessor_spec a k p = Some v"
  shows "call_accessor a r m p = v"
proof (cases "p = 0")
  case True
  with assms(3) show ?thesis
    by (simp add: accessor_spec_def call_accessor_template)
next
  case False
  with assms(3) have "field_spec a k p = Some v"
    by (simp add: accessor_spec_def)
  with assms(1) False show ?thesis
    by (rule field_spec_call_value) (use assms(2) in \<open>simp add: objects_repr_def\<close>)
qed

section \<open>Writing and reading back objects\<close>

lemma field_ranges_disjoint:
  assumes "unat p + off + w < 2 ^ 64" and "unat p + off' + w' < 2 ^ 64"
    and "off + w \<le> off' \<or> off' + w' \<le> off"
  shows "addr_range (p + word_of_nat off) w \<inter> addr_range (p + word_of_nat off') w' = {}"
proof -
  have u: "unat (p + word_of_nat off) = unat p + off" "unat (p + word_of_nat off') = unat p + off'"
    using assms(1,2) by (simp_all add: unat_add_no_wrap)
  from assms(3) show ?thesis
  proof
    assume "off + w \<le> off'"
    then show ?thesis
      using assms(2) u by (intro addr_range_disjoint) simp_all
  next
    assume "off' + w' \<le> off"
    then have "addr_range (p + word_of_nat off') w' \<inter> addr_range (p + word_of_nat off) w = {}"
      using assms(1) u by (intro addr_range_disjoint) simp_all
    then show ?thesis
      by blast
  qed
qed

text \<open>Writing an object leaves alone every byte string outside its fields.\<close>

lemma write_fields_outside:
  "list_all (\<lambda>(path, w, v). case path_offset tb ty path of
                              None \<Rightarrow> True
                            | Some off \<Rightarrow> addr_range q (length cs) \<inter> addr_range (p + word_of_nat off) w = {}) fs \<Longrightarrow>
   stores m q cs \<Longrightarrow> stores (write_fields tb m p ty fs) q cs"
proof (induction fs arbitrary: m)
  case Nil
  then show ?case by simp
next
  case (Cons f fs)
  obtain path w v where f: "f = (path, w, v)"
    by (cases f)
  show ?case
  proof (cases "path_offset tb ty path")
    case None
    with Cons f show ?thesis by simp
  next
    case (Some off)
    with Cons.prems f have "stores (kmem_write m (p + word_of_nat off) (le_bytes w v)) q cs"
      by (intro stores_kmem_write_other) auto
    with Cons Some f show ?thesis by simp
  qed
qed

text \<open>
  After the kernel writes the fields of an object under a layout well formed for
  it, memory represents the object under that layout: every field holds its value
  at its offset.
\<close>

lemma write_fields_repr:
  "fields_wf tb p ty fs \<Longrightarrow> fields_repr tb (write_fields tb m p ty fs) p ty fs"
proof (induction fs arbitrary: m)
  case Nil
  then show ?case by (simp add: fields_repr_def)
next
  case (Cons f fs)
  obtain path w v where f: "f = (path, w, v)"
    by (cases f)
  from Cons.prems f obtain off where off: "path_offset tb ty path = Some off"
    and nowrap: "unat p + off + w < 2 ^ 64"
    and apart: "list_all (\<lambda>(path', w', v'). case path_offset tb ty path' of
                             None \<Rightarrow> False
                           | Some off' \<Rightarrow> off + w \<le> off' \<or> off' + w' \<le> off) fs"
    and wf: "fields_wf tb p ty fs"
    by (auto split: option.splits)
  let ?m1 = "kmem_write m (p + word_of_nat off) (le_bytes w v)"
  have rest: "fields_repr tb (write_fields tb ?m1 p ty fs) p ty fs"
    using wf by (rule Cons.IH)
  have "stores ?m1 (p + word_of_nat off) (le_bytes w v)"
    using nowrap by (intro stores_kmem_write_same) simp
  moreover have "list_all (\<lambda>(path', w', v'). case path_offset tb ty path' of
      None \<Rightarrow> True
    | Some off' \<Rightarrow> addr_range (p + word_of_nat off) (length (le_bytes w v)) \<inter>
                    addr_range (p + word_of_nat off') w' = {}) fs"
    using apart wf
  proof (induction fs)
    case Nil
    then show ?case by simp
  next
    case (Cons g gs)
    obtain path' w' v' where g: "g = (path', w', v')"
      by (cases g)
    from Cons.prems g obtain off' where off': "path_offset tb ty path' = Some off'"
      and sep: "off + w \<le> off' \<or> off' + w' \<le> off" and nw': "unat p + off' + w' < 2 ^ 64"
      by (auto split: option.splits)
    have "addr_range (p + word_of_nat off) w \<inter> addr_range (p + word_of_nat off') w' = {}"
      using nowrap nw' sep by (rule field_ranges_disjoint)
    with Cons g off' show ?case
      by (auto split: option.splits)
  qed
  ultimately have "stores (write_fields tb ?m1 p ty fs) (p + word_of_nat off) (le_bytes w v)"
    by (intro write_fields_outside)
  with rest off f show ?case
    by (simp add: fields_repr_def)
qed

lemma fields_extent_field:
  "(path, w, v) \<in> set fs \<Longrightarrow> path_offset tb ty path = Some off \<Longrightarrow> off + w \<le> fields_extent tb ty fs"
  by (induction fs) (auto split: option.splits)

lemma fields_wf_field:
  "fields_wf tb p ty fs \<Longrightarrow> (path, w, v) \<in> set fs \<Longrightarrow>
   \<exists>off. path_offset tb ty path = Some off \<and> unat p + off + w < 2 ^ 64"
  by (induction fs) (auto split: option.splits)

text \<open>Writing an object leaves alone another object that lies entirely below or
  entirely above it.\<close>

lemma fields_repr_write_apart:
  assumes "fields_wf tb p ty fs" and "fields_wf tb q ty' gs"
    and "unat q + fields_extent tb ty' gs \<le> unat p \<or> unat p + fields_extent tb ty fs \<le> unat q"
    and "fields_repr tb m q ty' gs"
  shows "fields_repr tb (write_fields tb m p ty fs) q ty' gs"
  unfolding fields_repr_def list_all_iff
proof (intro ballI)
  fix g
  assume g: "g \<in> set gs"
  obtain path' w' v' where gv: "g = (path', w', v')"
    by (cases g)
  from assms(4) g gv obtain off' where off': "path_offset tb ty' path' = Some off'"
    and st: "stores m (q + word_of_nat off') (le_bytes w' v')"
    by (auto simp: fields_repr_def list_all_iff split: option.splits)
  have nw': "unat q + off' + w' < 2 ^ 64"
    using fields_wf_field [OF assms(2)] g gv off' by fastforce
  have uq: "unat (q + word_of_nat off') = unat q + off'"
    using nw' by (simp add: unat_add_no_wrap)
  have ext': "off' + w' \<le> fields_extent tb ty' gs"
    using fields_extent_field g gv off' by blast
  have "list_all (\<lambda>(path, w, v). case path_offset tb ty path of
      None \<Rightarrow> True
    | Some off \<Rightarrow> addr_range (q + word_of_nat off') (length (le_bytes w' v')) \<inter>
                   addr_range (p + word_of_nat off) w = {}) fs"
    unfolding list_all_iff
  proof (intro ballI, clarify)
    fix path w v
    assume f: "(path, w, v) \<in> set fs"
    show "case path_offset tb ty path of None \<Rightarrow> True
        | Some off \<Rightarrow> addr_range (q + word_of_nat off') (length (le_bytes w' v')) \<inter>
                      addr_range (p + word_of_nat off) w = {}"
    proof (cases "path_offset tb ty path")
      case None
      then show ?thesis by simp
    next
      case (Some off)
      have nw: "unat p + off + w < 2 ^ 64"
        using fields_wf_field [OF assms(1) f] Some by auto
      have up: "unat (p + word_of_nat off) = unat p + off"
        using nw by (simp add: unat_add_no_wrap)
      have ext: "off + w \<le> fields_extent tb ty fs"
        using fields_extent_field f Some by blast
      from assms(3) have "addr_range (q + word_of_nat off') w' \<inter> addr_range (p + word_of_nat off) w = {}"
      proof
        assume "unat q + fields_extent tb ty' gs \<le> unat p"
        then show ?thesis
          using nw ext' uq up by (intro addr_range_disjoint) simp_all
      next
        assume "unat p + fields_extent tb ty fs \<le> unat q"
        then have "addr_range (p + word_of_nat off) w \<inter> addr_range (q + word_of_nat off') w' = {}"
          using nw' ext uq up by (intro addr_range_disjoint) simp_all
        then show ?thesis
          by blast
      qed
      with Some show ?thesis
        by simp
    qed
  qed
  then have "stores (write_fields tb m p ty fs) (q + word_of_nat off') (le_bytes w' v')"
    using st by (rule write_fields_outside)
  with off' gv show "case g of (path, w, v) \<Rightarrow>
      (case path_offset tb ty' path of None \<Rightarrow> False
       | Some off \<Rightarrow> stores (write_fields tb m p ty fs) (q + word_of_nat off) (le_bytes w v))"
    by simp
qed

text \<open>
  C7. Write then read: the kernel writes the fields of an object at a non-null
  address, under a running layout in which the object's fields resolve, do not
  overlap and do not wrap; after a successful load against that layout, every
  accessor of the object's type returns the field the object holds.
\<close>

theorem write_object_read_back:
  assumes "core_relocate lb tb vmlinux_access_relos = Inr r" and "p \<noteq> 0"
    and "obj_fields k ty p = Some fs" and "fields_wf tb p ty fs"
    and "fst (accessor_access a) = ty" and "field_spec a k p = Some v"
  shows "call_accessor a r (write_fields tb m p ty fs) p = v"
  using assms(1,2,6)
proof (rule field_spec_call_value)
  fix fs'
  assume "obj_fields k (fst (accessor_access a)) p = Some fs'"
  with assms(3,5) have "fs' = fs"
    by simp
  with assms(4,5) show "fields_repr tb (write_fields tb m p ty fs) p (fst (accessor_access a)) fs'"
    by (simp add: write_fields_repr)
qed

text \<open>An object below all the objects written later keeps its representation.\<close>

lemma write_objects_below:
  "fields_repr tb m p ty fs \<Longrightarrow> fields_wf tb p ty fs \<Longrightarrow>
   list_all (\<lambda>(q, ty', gs). unat p + fields_extent tb ty fs \<le> unat q) os \<Longrightarrow>
   objects_apart tb os \<Longrightarrow> fields_repr tb (write_objects tb m os) p ty fs"
proof (induction os arbitrary: m)
  case Nil
  then show ?case by simp
next
  case (Cons o' os)
  obtain q ty' gs where o': "o' = (q, ty', gs)"
    by (cases o') auto
  from Cons.prems o' have wf': "fields_wf tb q ty' gs"
    and below: "unat p + fields_extent tb ty fs \<le> unat q"
    by simp_all
  have "fields_repr tb (write_fields tb m q ty' gs) p ty fs"
    using below by (intro fields_repr_write_apart [OF wf' Cons.prems(2) _ Cons.prems(1)]) simp
  with Cons o' show ?case
    by simp
qed

text \<open>Writing objects that lie apart leaves every one of them represented.\<close>

lemma write_objects_repr:
  "objects_apart tb os \<Longrightarrow> (p, ty, fs) \<in> set os \<Longrightarrow> fields_repr tb (write_objects tb m os) p ty fs"
proof (induction os arbitrary: m)
  case Nil
  then show ?case by simp
next
  case (Cons o' os)
  obtain q ty' gs where o': "o' = (q, ty', gs)"
    by (cases o') auto
  show ?case
  proof (cases "(p, ty, fs) = o'")
    case True
    with Cons.prems o' have "fields_wf tb p ty fs" and
      "list_all (\<lambda>(q, ty', gs). unat p + fields_extent tb ty fs \<le> unat q) os" and "objects_apart tb os"
      by simp_all
    with True o' show ?thesis
      by (simp add: write_objects_below write_fields_repr)
  next
    case False
    with Cons.prems(2) have "(p, ty, fs) \<in> set os"
      by auto
    with Cons.IH Cons.prems(1) o' show ?thesis
      by simp
  qed
qed

end
