(* ===== verification/Traversal.thy ===== *)
theory Traversal
  imports Kernel_Objects
begin

text \<open>
  The caller-driven traversals the specification puts on top of the accessors
  (sections 1(c), 3 and 9): the accessors only give "the next link from here",
  and a caller walks the process tree in a loop bounded by a constant, as the BPF
  verifier demands.  Two walks are modelled, each with its fuel (the loop bound)
  as an explicit argument:
  \<^item> the children of a task: \<open>task_struct_children_next\<close> gives the first link of
    the circular list headed at the task's member \<open>children\<close>; each link is the
    member \<open>sibling\<close> of a child, so the child is the link minus the offset of
    \<open>sibling\<close> (\<open>container_of\<close>), and \<open>task_struct_sibling_next\<close> of the child
    gives the next link; the walk ends back at the head;
  \<^item> the ancestors of a task: \<open>task_struct_parent\<close> until the task whose parent is
    itself (the idle task) or the null handle.
  The offsets of \<open>children\<close> and \<open>sibling\<close> in the running kernel, which the caller
  obtains through relocations of its own, are arguments.  The object-level
  abstractions (\<open>sib_list\<close>, \<open>children_of\<close>, \<open>parent_chain\<close>) say what the walks
  should find, in the style of \<open>Path\<close> and \<open>List\<close> of the Hoare heap theories.
\<close>

section \<open>The walks\<close>

fun children_walk :: "nat \<Rightarrow> reloc \<Rightarrow> kmem \<Rightarrow> addr \<Rightarrow> nat \<Rightarrow> addr \<Rightarrow> addr list" where
  "children_walk 0 r m head sib link = []"
| "children_walk (Suc n) r m head sib link =
     (if link = head \<or> link = 0 then []
      else (let c = link - word_of_nat sib
            in c # children_walk n r m head sib (task_struct_sibling_next r m c)))"

definition task_children :: "nat \<Rightarrow> reloc \<Rightarrow> kmem \<Rightarrow> nat \<Rightarrow> nat \<Rightarrow> addr \<Rightarrow> addr list" where
  "task_children fuel r m chld sib t =
     (if t = 0 then []
      else children_walk fuel r m (t + word_of_nat chld) sib (task_struct_children_next r m t))"

fun ancestors :: "nat \<Rightarrow> reloc \<Rightarrow> kmem \<Rightarrow> addr \<Rightarrow> addr list" where
  "ancestors 0 r m t = []"
| "ancestors (Suc n) r m t =
     (let q = task_struct_parent r m t in if q = 0 \<or> q = t then [] else q # ancestors n r m q)"

section \<open>What the walks should find\<close>

text \<open>\<open>sib_list k sib link cs head\<close>: following the \<open>sibling\<close> links of the tasks
  \<open>cs\<close> from \<open>link\<close> leads back to \<open>head\<close>, through no null link and no other
  occurrence of the head.\<close>

primrec sib_list :: "kernel_objects \<Rightarrow> nat \<Rightarrow> addr \<Rightarrow> addr list \<Rightarrow> addr \<Rightarrow> bool" where
  "sib_list k sib link [] head = (link = head)"
| "sib_list k sib link (c # cs) head =
     (link = c + word_of_nat sib \<and> link \<noteq> head \<and> link \<noteq> 0 \<and> c \<noteq> 0 \<and>
      (case ko_tasks k c of
         None \<Rightarrow> False
       | Some x \<Rightarrow> sib_list k sib (tsk_sibling_next x) cs head))"

text \<open>\<open>children_of tb k t cs\<close>: the children of the task \<open>t\<close> are \<open>cs\<close>, in list
  order, with the list links at the offsets of \<open>children\<close> and \<open>sibling\<close> in the
  layout \<open>tb\<close>.\<close>

definition children_of :: "btf \<Rightarrow> kernel_objects \<Rightarrow> addr \<Rightarrow> addr list \<Rightarrow> bool" where
  "children_of tb k t cs =
     (case (ko_tasks k t, path_offset tb Task_struct [''children''],
            path_offset tb Task_struct [''sibling'']) of
        (Some x, Some chld, Some sib) \<Rightarrow> sib_list k sib (tsk_children_next x) cs (t + word_of_nat chld)
      | _ \<Rightarrow> False)"

text \<open>\<open>parent_chain k t qs\<close>: the parents of \<open>t\<close>, nearest first, up to the task
  whose parent is null or itself.\<close>

primrec parent_chain :: "kernel_objects \<Rightarrow> addr \<Rightarrow> addr list \<Rightarrow> bool" where
  "parent_chain k t [] =
     (t \<noteq> 0 \<and> (case ko_tasks k t of None \<Rightarrow> False | Some x \<Rightarrow> tsk_parent x = 0 \<or> tsk_parent x = t))"
| "parent_chain k t (q # qs) =
     (t \<noteq> 0 \<and> (case ko_tasks k t of
                  None \<Rightarrow> False
                | Some x \<Rightarrow> tsk_parent x = q \<and> q \<noteq> 0 \<and> q \<noteq> t \<and> parent_chain k q qs))"

section \<open>The accessors a walk calls\<close>

text \<open>A loaded accessor of a represented task returns the task's field.\<close>

lemma loaded_task_reads:
  assumes load: "core_relocate lb tb vmlinux_access_relos = Inr r" and repr: "objects_repr tb k m"
    and t: "ko_tasks k p = Some x" and nn: "p \<noteq> 0"
  shows "task_struct_parent r m p = tsk_parent x"
    and "task_struct_children_next r m p = tsk_children_next x"
    and "task_struct_sibling_next r m p = tsk_sibling_next x"
proof -
  have rd: "call_accessor a r m p = v" if "field_spec a k p = Some v" for a v
    using load nn that
  proof (rule field_spec_call_value)
    fix fs
    assume "obj_fields k (fst (accessor_access a)) p = Some fs"
    with repr show "fields_repr tb m p (fst (accessor_access a)) fs"
      by (simp add: objects_repr_def)
  qed
  show "task_struct_parent r m p = tsk_parent x"
    using rd [of Task_struct_parent] t by (simp add: word_uint_eq_iff)
  show "task_struct_children_next r m p = tsk_children_next x"
    using rd [of Task_struct_children_next] t by (simp add: word_uint_eq_iff)
  show "task_struct_sibling_next r m p = tsk_sibling_next x"
    using rd [of Task_struct_sibling_next] t by (simp add: word_uint_eq_iff)
qed

section \<open>The walks find what the kernel holds\<close>

lemma children_walk_sib_list:
  assumes load: "core_relocate lb tb vmlinux_access_relos = Inr r" and repr: "objects_repr tb k m"
  shows "sib_list k sib link cs head \<Longrightarrow> children_walk n r m head sib link = take n cs"
proof (induction cs arbitrary: n link)
  case Nil
  then show ?case
    by (cases n) simp_all
next
  case (Cons c cs)
  from Cons.prems obtain x where l: "link = c + word_of_nat sib" and lh: "link \<noteq> head"
    and l0: "link \<noteq> 0" and c0: "c \<noteq> 0" and x: "ko_tasks k c = Some x"
    and rest: "sib_list k sib (tsk_sibling_next x) cs head"
    by (auto split: option.splits)
  have "task_struct_sibling_next r m c = tsk_sibling_next x"
    using load repr x c0 by (rule loaded_task_reads(3))
  with Cons.IH [OF rest] l lh l0 show ?case
    by (cases n) simp_all
qed

text \<open>
  C8. Walking the children of a task: with the running kernel's offsets of
  \<open>children\<close> and \<open>sibling\<close>, the bounded walk over \<open>task_struct_children_next\<close>
  and \<open>task_struct_sibling_next\<close> returns the task's children in list order, as
  many as the bound allows: all of them when the bound is at least their number,
  and it stops at the list head, never returning the head as a child.
\<close>

theorem task_children_walk:
  assumes load: "core_relocate lb tb vmlinux_access_relos = Inr r" and repr: "objects_repr tb k m"
    and chld: "path_offset tb Task_struct [''children''] = Some chld"
    and sib: "path_offset tb Task_struct [''sibling''] = Some sib"
    and t0: "t \<noteq> 0" and ch: "children_of tb k t cs"
  shows "task_children fuel r m chld sib t = take fuel cs"
proof -
  from ch chld sib obtain x where x: "ko_tasks k t = Some x"
    and sl: "sib_list k sib (tsk_children_next x) cs (t + word_of_nat chld)"
    by (auto simp: children_of_def split: option.splits)
  have "task_struct_children_next r m t = tsk_children_next x"
    using load repr x t0 by (rule loaded_task_reads(2))
  with sl t0 show ?thesis
    by (simp add: task_children_def children_walk_sib_list [OF load repr])
qed

text \<open>
  C9. Walking the ancestors of a task: the bounded walk over
  \<open>task_struct_parent\<close> returns the task's parents, nearest first, up to the task
  whose parent is null or itself, as many as the bound allows.
\<close>

theorem task_ancestors_walk:
  assumes load: "core_relocate lb tb vmlinux_access_relos = Inr r" and repr: "objects_repr tb k m"
  shows "parent_chain k t qs \<Longrightarrow> ancestors fuel r m t = take fuel qs"
proof (induction qs arbitrary: t fuel)
  case Nil
  then obtain x where t0: "t \<noteq> 0" and x: "ko_tasks k t = Some x"
    and root: "tsk_parent x = 0 \<or> tsk_parent x = t"
    by (auto split: option.splits)
  have "task_struct_parent r m t = tsk_parent x"
    using load repr x t0 by (rule loaded_task_reads(1))
  with root show ?case
    by (cases fuel) auto
next
  case (Cons q qs)
  then obtain x where t0: "t \<noteq> 0" and x: "ko_tasks k t = Some x" and par: "tsk_parent x = q"
    and q0: "q \<noteq> 0" and qt: "q \<noteq> t" and rest: "parent_chain k q qs"
    by (auto split: option.splits)
  have "task_struct_parent r m t = tsk_parent x"
    using load repr x t0 by (rule loaded_task_reads(1))
  with Cons.IH [OF rest] par q0 qt show ?case
    by (cases fuel) simp_all
qed

end
