(* ===== verification/Scenarios.thy ===== *)
theory Scenarios
  imports Traversal
begin

text \<open>
  Concrete fixtures: three kernel layouts and a kernel memory holding one
  process.  \<open>layout_v1\<close> plays the build-time \<open>vmlinux.h\<close>; \<open>layout_v2\<close> is a
  running kernel in which \<open>task_struct\<close> and \<open>mm_struct\<close> have grown, so that
  every field the accessors read there has moved; \<open>layout_v3\<close> is a kernel whose
  \<open>kernfs_node\<close> has no member \<open>id\<close>.  The offsets are illustrative, not those of
  a particular kernel release.  The witnesses instantiate the theorems of the
  development on these fixtures, where every hypothesis holds.
\<close>

section \<open>Layouts\<close>

fun layout_v1 :: "ctype \<Rightarrow> (string \<times> nat \<times> member_type) list" where
  "layout_v1 Cgroup = [(''kn'', 256, Pointer)]"
| "layout_v1 Kernfs_node = [(''id'', 88, Integer 8)]"
| "layout_v1 File = [(''f_path'', 16, Struct Path)]"
| "layout_v1 Path = [(''mnt'', 0, Pointer), (''dentry'', 8, Pointer)]"
| "layout_v1 Linux_binprm =
     [(''file'', 64, Pointer), (''argc'', 96, Integer 4), (''filename'', 112, Pointer)]"
| "layout_v1 Signal_struct = [(''live'', 4, Struct Atomic_t)]"
| "layout_v1 Atomic_t = [(''counter'', 0, Integer 4)]"
| "layout_v1 Mm_struct = [(''arg_start'', 304, Integer 8), (''arg_end'', 312, Integer 8)]"
| "layout_v1 Task_struct =
     [(''mm'', 1320, Pointer), (''exit_code'', 1364, Integer 4), (''pid'', 1432, Integer 4),
      (''tgid'', 1436, Integer 4), (''parent'', 1448, Pointer),
      (''children'', 1456, Struct List_head), (''sibling'', 1472, Struct List_head),
      (''group_leader'', 1488, Pointer), (''signal'', 1816, Pointer)]"
| "layout_v1 List_head = [(''next'', 0, Pointer), (''prev'', 8, Pointer)]"

fun layout_v2 :: "ctype \<Rightarrow> (string \<times> nat \<times> member_type) list" where
  "layout_v2 Mm_struct = [(''arg_start'', 336, Integer 8), (''arg_end'', 344, Integer 8)]"
| "layout_v2 Task_struct =
     [(''mm'', 1384, Pointer), (''exit_code'', 1428, Integer 4), (''pid'', 1496, Integer 4),
      (''tgid'', 1500, Integer 4), (''parent'', 1512, Pointer),
      (''children'', 1520, Struct List_head), (''sibling'', 1536, Struct List_head),
      (''group_leader'', 1552, Pointer), (''signal'', 1880, Pointer)]"
| "layout_v2 t = layout_v1 t"

fun layout_v3 :: "ctype \<Rightarrow> (string \<times> nat \<times> member_type) list" where
  "layout_v3 Kernfs_node = [(''ino'', 88, Integer 4)]"
| "layout_v3 t = layout_v1 t"

definition btf_v1 :: btf where
  "btf_v1 t = map_of (layout_v1 t)"

definition btf_v2 :: btf where
  "btf_v2 t = map_of (layout_v2 t)"

definition btf_v3 :: btf where
  "btf_v3 t = map_of (layout_v3 t)"

text \<open>The relocation table of the program built against v1 and loaded on v2.\<close>

definition reloc_v1_v2 :: reloc where
  "reloc_v1_v2 =
     (case core_relocate btf_v1 btf_v2 vmlinux_access_relos of Inr r \<Rightarrow> r | Inl _ \<Rightarrow> (\<lambda>_. 0))"

section \<open>A kernel memory with one process\<close>

definition task_addr :: addr where
  "task_addr = 0xffff888100000000"

definition mm_addr :: addr where
  "mm_addr = 0xffff888100400000"

definition signal_addr :: addr where
  "signal_addr = 0xffff888100800000"

text \<open>Laid out as kernel v2 does: a thread with pid 1234 in the thread group 1230,
  three live threads, the
  command line at \<open>[0x7ffee0001000, 0x7ffee0001050)\<close>.\<close>

definition scenario_kmem :: kmem where
  "scenario_kmem =
     kmem_write (kmem_write (kmem_write (kmem_write (kmem_write (kmem_write (kmem_write
       (\<lambda>_. None)
       (task_addr + 1496) (le_bytes 4 1234))
       (task_addr + 1500) (le_bytes 4 1230))
       (task_addr + 1384) (le_bytes 8 (unat mm_addr)))
       (task_addr + 1880) (le_bytes 8 (unat signal_addr)))
       (mm_addr + 336) (le_bytes 8 0x7ffee0001000))
       (mm_addr + 344) (le_bytes 8 0x7ffee0001050))
       (signal_addr + 4) (le_bytes 4 3)"

text \<open>The same process as kernel objects, in a small process tree: the task
  \<open>task0\<close> (pid 1234, thread group 1230) is a child of the idle task \<open>idle0\<close>,
  whose parent is itself, and has two children \<open>child1\<close> and \<open>child2\<close>, linked
  through their \<open>sibling\<close> members (offset 1536 in layout v2) into the list headed
  at its \<open>children\<close> member (offset 1520).\<close>

definition child1_addr :: addr where
  "child1_addr = 0xffff888100002000"

definition idle_addr :: addr where
  "idle_addr = 0xffff888100004000"

definition child2_addr :: addr where
  "child2_addr = 0xffff888100006000"

definition fixture_task :: "c_int \<Rightarrow> addr \<Rightarrow> addr \<Rightarrow> addr \<Rightarrow> task_obj" where
  "fixture_task pid parent children sibling =
     \<lparr>tsk_mm = 0, tsk_exit_code = 0, tsk_pid = pid, tsk_tgid = pid, tsk_parent = parent,
      tsk_children_next = children, tsk_sibling_next = sibling, tsk_group_leader = 0,
      tsk_signal = 0\<rparr>"

definition task0 :: task_obj where
  "task0 = \<lparr>tsk_mm = mm_addr, tsk_exit_code = 0, tsk_pid = 1234, tsk_tgid = 1230,
     tsk_parent = idle_addr, tsk_children_next = child1_addr + 1536,
     tsk_sibling_next = idle_addr + 1520, tsk_group_leader = 0xffff888100008000,
     tsk_signal = signal_addr\<rparr>"

definition child1 :: task_obj where
  "child1 = fixture_task 1300 task_addr (child1_addr + 1520) (child2_addr + 1536)"

definition child2 :: task_obj where
  "child2 = fixture_task 1301 task_addr (child2_addr + 1520) (task_addr + 1520)"

definition idle0 :: task_obj where
  "idle0 = fixture_task 0 idle_addr (task_addr + 1536) (idle_addr + 1536)"

definition mm0 :: mm_obj where
  "mm0 = \<lparr>mm_arg_start = 0x7ffee0001000, mm_arg_end = 0x7ffee0001050\<rparr>"

definition signal0 :: signal_obj where
  "signal0 = \<lparr>sig_live_counter = 3\<rparr>"

definition scenario_objects :: kernel_objects where
  "scenario_objects =
     \<lparr>ko_tasks = [task_addr \<mapsto> task0, child1_addr \<mapsto> child1, idle_addr \<mapsto> idle0,
                 child2_addr \<mapsto> child2],
      ko_mms = [mm_addr \<mapsto> mm0], ko_signals = [signal_addr \<mapsto> signal0],
      ko_bprms = Map.empty, ko_files = Map.empty, ko_cgroups = Map.empty, ko_kernfs = Map.empty\<rparr>"

text \<open>The images of the objects, in ascending order of address, and the memory the
  kernel writes for them under layout v2.\<close>

definition scenario_images :: "object_image list" where
  "scenario_images =
     [(task_addr, Task_struct, task_fields task0), (child1_addr, Task_struct, task_fields child1),
      (idle_addr, Task_struct, task_fields idle0), (child2_addr, Task_struct, task_fields child2),
      (mm_addr, Mm_struct, mm_fields mm0), (signal_addr, Signal_struct, signal_fields signal0)]"

definition objects_kmem_v2 :: kmem where
  "objects_kmem_v2 = write_objects btf_v2 (\<lambda>_. None) scenario_images"

section \<open>Evaluating the fixtures\<close>

lemmas fixture_defs = btf_v1_def btf_v2_def btf_v3_def task_addr_def mm_addr_def signal_addr_def
  child1_addr_def idle_addr_def child2_addr_def

lemma task_addrs_distinct:
  "task_addr \<noteq> child1_addr" "task_addr \<noteq> idle_addr" "task_addr \<noteq> child2_addr"
  "child1_addr \<noteq> task_addr" "child1_addr \<noteq> idle_addr" "child1_addr \<noteq> child2_addr"
  "idle_addr \<noteq> task_addr" "idle_addr \<noteq> child1_addr" "idle_addr \<noteq> child2_addr"
  "child2_addr \<noteq> task_addr" "child2_addr \<noteq> child1_addr" "child2_addr \<noteq> idle_addr"
  by (simp_all add: fixture_defs)

lemma load_v1_v2: "core_relocate btf_v1 btf_v2 vmlinux_access_relos = Inr reloc_v1_v2"
  by (simp add: reloc_v1_v2_def vmlinux_access_relos_def vmlinux_accessors_def
      core_field_offset_def fixture_defs)

lemma reloc_v1_v2_at:
  "acc \<in> set vmlinux_access_relos \<Longrightarrow> path_offset btf_v2 (fst acc) (snd acc) = Some off \<Longrightarrow>
   reloc_v1_v2 acc = off"
  using core_relocate_target_offset [OF load_v1_v2] by fastforce

lemma reloc_v1_v2_fields:
  "reloc_v1_v2 (Task_struct, [''pid'']) = 1496"
  "reloc_v1_v2 (Task_struct, [''mm'']) = 1384"
  "reloc_v1_v2 (Task_struct, [''signal'']) = 1880"
  "reloc_v1_v2 (Mm_struct, [''arg_start'']) = 336"
  "reloc_v1_v2 (Mm_struct, [''arg_end'']) = 344"
  "reloc_v1_v2 (Signal_struct, [''live'', ''counter'']) = 4"
  by (rule reloc_v1_v2_at; simp add: vmlinux_access_relos_def vmlinux_accessors_def fixture_defs)+

section \<open>Witnesses of the facade's theorems\<close>

lemma pid_offset_v2: "path_offset btf_v2 Task_struct [''pid''] = Some 1496"
  by (simp add: btf_v2_def)

lemma task_addr_nonnull: "task_addr \<noteq> 0"
  by (simp add: task_addr_def)

lemma pid_stored: "stores scenario_kmem (task_addr + word_of_nat 1496) (le_bytes 4 1234)"
  by (simp add: scenario_kmem_def fixture_defs kernel_eval)

theorem accessor_loaded_behaviour_witness:
  "core_relocate btf_v1 btf_v2 vmlinux_access_relos = Inr reloc_v1_v2 \<and>
   path_offset btf_v2 Task_struct [''pid''] = Some 1496 \<and>
   call_accessor Task_struct_pid reloc_v1_v2 scenario_kmem task_addr = 1234"
proof -
  have po: "path_offset btf_v2 (fst (accessor_access Task_struct_pid))
      (snd (accessor_access Task_struct_pid)) = Some 1496"
    by (simp add: btf_v2_def)
  note eq = accessor_loaded_behaviour [OF load_v1_v2 po, of scenario_kmem task_addr]
  have "call_accessor Task_struct_pid reloc_v1_v2 scenario_kmem task_addr = 1234"
    by (subst eq) (simp add: scenario_kmem_def fixture_defs kernel_eval)
  then show ?thesis
    using load_v1_v2 pid_offset_v2 by simp
qed

theorem accessor_reads_stored_field_witness:
  "core_relocate btf_v1 btf_v2 vmlinux_access_relos = Inr reloc_v1_v2 \<and> task_addr \<noteq> 0 \<and>
   path_offset btf_v2 Task_struct [''pid''] = Some 1496 \<and>
   stores scenario_kmem (task_addr + word_of_nat 1496) (le_bytes 4 1234) \<and> (4::nat) \<le> 4 \<and>
   call_accessor Task_struct_pid reloc_v1_v2 scenario_kmem task_addr = 1234"
  using accessor_reads_stored_field [OF load_v1_v2 task_addr_nonnull _ pid_stored,
      of Task_struct_pid]
    load_v1_v2 task_addr_nonnull pid_offset_v2 pid_stored
  by simp

theorem accessor_fault_returns_zero_witness:
  "core_relocate btf_v1 btf_v2 vmlinux_access_relos = Inr reloc_v1_v2 \<and> task_addr \<noteq> 0 \<and>
   path_offset btf_v2 Task_struct [''pid''] = Some 1496 \<and>
   \<not> readable (\<lambda>_. None) (task_addr + word_of_nat 1496) 4 \<and>
   call_accessor Task_struct_pid reloc_v1_v2 (\<lambda>_. None) task_addr = 0 \<and>
   call_accessor Task_struct_pid reloc_v1_v2 (\<lambda>_. None) task_addr \<noteq> -1"
proof -
  have unreadable: "\<not> readable (\<lambda>_. None) (task_addr + word_of_nat 1496) 4"
    by (simp add: kernel_eval)
  show ?thesis
    using accessor_fault_returns_zero [OF load_v1_v2 task_addr_nonnull _ ,
        of Task_struct_pid 1496 "\<lambda>_. None"]
      load_v1_v2 task_addr_nonnull pid_offset_v2 unreadable
    by simp
qed

theorem accessor_frame_witness:
  "agree_on scenario_kmem (scenario_kmem(mm_addr := None))
     (field_addr reloc_v1_v2 task_addr (Task_struct, [''pid''])) 4 \<and>
   call_accessor Task_struct_pid reloc_v1_v2 scenario_kmem task_addr =
   call_accessor Task_struct_pid reloc_v1_v2 (scenario_kmem(mm_addr := None)) task_addr"
proof -
  have agree: "agree_on scenario_kmem (scenario_kmem(mm_addr := None))
     (field_addr reloc_v1_v2 task_addr (Task_struct, [''pid''])) 4"
    by (simp add: reloc_v1_v2_fields fixture_defs kernel_eval)
  show ?thesis
    using accessor_frame [where m = scenario_kmem and m' = "scenario_kmem(mm_addr := None)"
        and r = reloc_v1_v2 and p = task_addr and a = Task_struct_pid] agree
    by simp
qed

text \<open>On the kernel without \<open>kernfs_node.id\<close>, the load stops at that access.\<close>

lemma load_v1_v3:
  "core_relocate btf_v1 btf_v3 vmlinux_access_relos = Inl (Reloc_failed (Kernfs_node, [''id'']))"
  by (simp add: vmlinux_access_relos_def vmlinux_accessors_def core_field_offset_def fixture_defs)

lemma task0_fields_wf_v2: "fields_wf btf_v2 task_addr Task_struct (task_fields task0)"
  by (simp add: task_fields_def fixture_defs)

lemma scenario_images_apart: "objects_apart btf_v2 scenario_images"
  by (simp add: scenario_images_def task_fields_def mm_fields_def signal_fields_def fixture_defs)

text \<open>The kernel wrote the objects one after the other; each is read back.\<close>

lemma objects_repr_v2: "objects_repr btf_v2 scenario_objects objects_kmem_v2"
proof -
  have rep: "fields_repr btf_v2 objects_kmem_v2 p ty fs" if "(p, ty, fs) \<in> set scenario_images"
    for p ty fs
    unfolding objects_kmem_v2_def using scenario_images_apart that by (rule write_objects_repr)
  show ?thesis
    unfolding objects_repr_iff scenario_objects_def
    by (auto intro!: rep simp: scenario_images_def task_addrs_distinct split: if_splits)
qed

theorem accessors_refine_spec_witness:
  "core_relocate btf_v1 btf_v2 vmlinux_access_relos = Inr reloc_v1_v2 \<and>
   objects_repr btf_v2 scenario_objects objects_kmem_v2 \<and>
   accessor_spec Task_struct_pid scenario_objects task_addr = Some 1234 \<and>
   call_accessor Task_struct_pid reloc_v1_v2 objects_kmem_v2 task_addr = 1234"
proof -
  have spec: "accessor_spec Task_struct_pid scenario_objects task_addr = Some 1234"
    by (simp add: accessor_spec_def scenario_objects_def task0_def task_addrs_distinct task_addr_nonnull)
  show ?thesis
    using accessors_refine_spec [OF load_v1_v2 objects_repr_v2 spec] load_v1_v2 objects_repr_v2 spec
    by simp
qed

theorem write_object_read_back_witness:
  "core_relocate btf_v1 btf_v2 vmlinux_access_relos = Inr reloc_v1_v2 \<and> task_addr \<noteq> 0 \<and>
   obj_fields scenario_objects Task_struct task_addr = Some (task_fields task0) \<and>
   fields_wf btf_v2 task_addr Task_struct (task_fields task0) \<and>
   fst (accessor_access Task_struct_pid) = Task_struct \<and>
   field_spec Task_struct_pid scenario_objects task_addr = Some 1234 \<and>
   call_accessor Task_struct_pid reloc_v1_v2
     (write_fields btf_v2 (\<lambda>_. None) task_addr Task_struct (task_fields task0)) task_addr = 1234"
proof -
  have nn: "task_addr \<noteq> 0"
    by (simp add: task_addr_def)
  have obj: "obj_fields scenario_objects Task_struct task_addr = Some (task_fields task0)"
    by (simp add: scenario_objects_def task_addrs_distinct)
  have ty: "fst (accessor_access Task_struct_pid) = Task_struct"
    by simp
  have spec: "field_spec Task_struct_pid scenario_objects task_addr = Some 1234"
    by (simp add: scenario_objects_def task0_def task_addrs_distinct)
  show ?thesis
    using write_object_read_back [OF load_v1_v2 nn obj task0_fields_wf_v2 ty spec, of "\<lambda>_. None"]
      load_v1_v2 nn obj task0_fields_wf_v2 ty spec
    by blast
qed

section \<open>Witnesses of the walks\<close>

lemma task_list_offsets_v2:
  "path_offset btf_v2 Task_struct [''children''] = Some 1520"
  "path_offset btf_v2 Task_struct [''sibling''] = Some 1536"
  by (simp_all add: btf_v2_def)

lemma task0_children: "children_of btf_v2 scenario_objects task_addr [child1_addr, child2_addr]"
  by (simp add: children_of_def scenario_objects_def task0_def child1_def child2_def idle0_def
      fixture_task_def fixture_defs)

lemma child1_parents: "parent_chain scenario_objects child1_addr [task_addr, idle_addr]"
  by (simp add: scenario_objects_def task0_def child1_def child2_def idle0_def fixture_task_def
      fixture_defs)

theorem task_children_walk_witness:
  "core_relocate btf_v1 btf_v2 vmlinux_access_relos = Inr reloc_v1_v2 \<and>
   objects_repr btf_v2 scenario_objects objects_kmem_v2 \<and>
   path_offset btf_v2 Task_struct [''children''] = Some 1520 \<and>
   path_offset btf_v2 Task_struct [''sibling''] = Some 1536 \<and> task_addr \<noteq> 0 \<and>
   children_of btf_v2 scenario_objects task_addr [child1_addr, child2_addr] \<and>
   task_children 3 reloc_v1_v2 objects_kmem_v2 1520 1536 task_addr = [child1_addr, child2_addr]"
  using task_children_walk [OF load_v1_v2 objects_repr_v2 task_list_offsets_v2 task_addr_nonnull
      task0_children, of 3]
    load_v1_v2 objects_repr_v2 task_list_offsets_v2 task_addr_nonnull task0_children
  by simp

theorem task_ancestors_walk_witness:
  "core_relocate btf_v1 btf_v2 vmlinux_access_relos = Inr reloc_v1_v2 \<and>
   objects_repr btf_v2 scenario_objects objects_kmem_v2 \<and>
   parent_chain scenario_objects child1_addr [task_addr, idle_addr] \<and>
   ancestors 4 reloc_v1_v2 objects_kmem_v2 child1_addr = [task_addr, idle_addr]"
  using task_ancestors_walk [OF load_v1_v2 objects_repr_v2 child1_parents, of 4]
    load_v1_v2 objects_repr_v2 child1_parents
  by simp

end
