(* ===== verification/Spec2Isabelle.thy ===== *)
theory Spec2Isabelle
  imports Scenarios
begin

text \<open>
  \<^bold>\<open>A verified model of the process monitor's kernel accessor layer.\<close>

  \<^bold>\<open>The program.\<close>  \<open>src/crates/bpf-programs/process-monitor/vmlinux_access.c\<close>
  (declared in \<open>vmlinux_access.h\<close>) is the layer of the eBPF process monitor that
  reads fields of kernel structures (\<open>task_struct\<close>, \<open>mm_struct\<close>,
  \<open>signal_struct\<close>, \<open>linux_binprm\<close>, \<open>file\<close>, \<open>cgroup\<close>, \<open>kernfs_node\<close>).  It
  has two parts that call each other in one direction only:
  \<^item> the \<^emph>\<open>struct accessor facade\<close>, nineteen C functions, each a null guard
    returning a sentinel (\<open>0\<close>, \<open>-1\<close> or \<open>ULONG_MAX\<close>) followed by one
    \<open>BPF_CORE_READ\<close> of one field;
  \<^item> the \<^emph>\<open>relocatable field reader\<close>, libbpf's \<open>BPF_CORE_READ\<close> macro (not under
    \<open>src/\<close>): the field's offset is relocated by libbpf at load time against the
    running kernel's BTF (CO-RE), and the read itself is the helper
    \<open>bpf_probe_read_kernel\<close>, which copies the bytes with
    \<open>copy_from_kernel_nofault\<close> and zero-fills its buffer on a fault.
  The accessors keep no state; their only inputs are the handle, the relocated
  program and the kernel memory, which the kernel may change at any time.

  \<^bold>\<open>The theories.\<close>
  \<^item> \<open>Prelude\<close>: the machine types (\<open>addr\<close>, \<open>c_int\<close>, \<open>u64\<close>, \<open>c_ulong\<close> as
    words of their C widths on the 64-bit little-endian target), the theorem
    collections \<open>vmlinux_access_defs\<close>, \<open>core_read_simps\<close>, \<open>kernel_eval\<close>, and the
    little-endian codec \<open>le_nat\<close>/\<open>le_bytes\<close>/\<open>le_word\<close> with its round trips
    and truncation lemmas.
  \<^item> \<open>Kernel_Memory\<close>: kernel memory \<open>kmem\<close> as a partial map from addresses to
    bytes (\<open>None\<close>: not readable without a fault), the byte copy
    \<open>copy_from_kernel_nofault\<close> (address arithmetic wrapping at \<open>2^64\<close>) and the helper
    \<open>bpf_probe_read_kernel\<close> (return code \<open>0\<close> or \<open>-EFAULT\<close>, zero fill), with
    the predicates \<open>stores\<close>, \<open>readable\<close>, \<open>agree_on\<close> and the kernel's write
    \<open>kmem_write\<close>, with its frame and read-back lemmas over address ranges
    (\<open>addr_range\<close>).  Modelled from the helper's documented contract.
  \<^item> \<open>Core_Reloc\<close>: layouts (\<open>btf\<close>: member offset and kind per structure and
    member name), field accesses (\<open>access\<close>: root structure and member path
    through embedded structures), the resolution of one access against the
    build-time and the running layout (\<open>field_reloc\<close>, \<open>core_field_offset\<close>,
    kinds checked by \<open>member_compat\<close>) and the load of a program
    (\<open>core_relocate\<close>: the relocation table, or the first access that does not
    resolve).  Modelled from libbpf's documented CO-RE semantics.
  \<^item> \<open>Core_Read\<close>: \<open>BPF_CORE_READ\<close> for one access: a read of
    \<open>LENGTH('a) div 8\<close> bytes (the size of the field's build-time type) at the
    handle plus the relocated offset, decoded little-endian, the helper's return
    code ignored.  Its rules: decoding on success, 0 on a fault, truncation when
    the running kernel's field is wider, and the frame rule (only the field's
    bytes are read).
  \<^item> \<open>Vmlinux_Access\<close>: the nineteen accessors, one definition each, with the
    source's names, guards and fields (\<open>cgroup_kn\<close> \<dots> \<open>task_struct_signal\<close>,
    \<open>ULONG_MAX\<close>); the interface datatype \<open>accessor\<close> with the field
    (\<open>accessor_access\<close>), the result kind (\<open>accessor_kind\<close>), the sentinel, and
    \<open>call_accessor\<close>, which runs an accessor and reads its C result as an integer;
    the program's relocation list \<open>vmlinux_access_relos\<close>.  The template lemma
    \<open>call_accessor_template\<close> states that every accessor is "sentinel on null, else
    one read"; the facade's theorems (C1 to C5) follow from it and the reader's
    rules.  The lemma \<open>header_matches_definitions\<close> compares the prototypes of
    \<open>vmlinux_access.h\<close> with the definitions, and \<open>vmlinux_load_failure\<close> says
    what a failed load reports.
  \<^item> \<open>Kernel_Objects\<close>: the specification's view of the kernel: its objects as
    records (\<open>task_obj\<close> \<dots> \<open>kernfs_obj\<close>, collected in \<open>kernel_objects\<close>), the
    byte image of each under a layout (\<open>obj_fields\<close>, \<open>fields_repr\<close>,
    \<open>objects_repr\<close>), the kernel writing one (\<open>write_fields\<close>) or several
    (\<open>write_objects\<close>), and a layout well formed for them (\<open>fields_wf\<close>,
    \<open>fields_extent\<close>, \<open>objects_apart\<close>); the contract of each accessor
    (\<open>field_spec\<close>, \<open>accessor_spec\<close>).  Its theorems are the refinement of the
    contract by the accessors (C6) and the write-then-read round trip (C7).
  \<^item> \<open>Traversal\<close>: the caller-driven walks the specification puts on top of the
    accessors, each bounded by its fuel as a BPF loop is by its constant: the
    children of a task over \<open>task_struct_children_next\<close> and
    \<open>task_struct_sibling_next\<close>, with \<open>container_of\<close> and list-head detection
    (\<open>children_walk\<close>, \<open>task_children\<close>), and the ancestors over
    \<open>task_struct_parent\<close> (\<open>ancestors\<close>); what they should find, as list-path
    predicates on the objects (\<open>sib_list\<close>, \<open>children_of\<close>, \<open>parent_chain\<close>);
    and their correctness (C8, C9).  Modelled from the specification: the
    callers are not in the repository.
  \<^item> \<open>Scenarios\<close>: three illustrative layouts (a build-time one, a running kernel
    in which the read fields have moved, one lacking \<open>kernfs_node.id\<close>), a kernel
    memory holding one thread (pid 1234 in thread group 1230), a small process
    tree written by the kernel as objects (an idle task, its child, and that
    child's two children), and the witnesses that instantiate every theorem with
    hypotheses there.
  \<^item> this theory: this overview.

  \<^bold>\<open>What the theorems show.\<close>  Every accessor returns its sentinel on a null
  handle without consulting memory (C1).  After a successful load, a non-null
  handle yields the field's bytes at the running kernel's offset, decoded at the
  result width, or 0 when they cannot be read (C2); so a field holding \<open>v\<close>
  yields \<open>v\<close> (C3).  A fault yields 0, which is the sentinel only for pointer
  accessors (C4): the code does not return \<open>-1\<close> or \<open>ULONG_MAX\<close> on a failed
  read, contrary to the specification.  Only the field's bytes are read (C5), so
  a concurrent change elsewhere in memory does not affect a result.  Against the
  object-level contract, which names the field of each accessor, every accessor
  returns the object's field or the sentinel (C6), and what the kernel writes
  under a well-formed layout is what the accessors read back (C7).  A caller's
  bounded walk of a children list returns the children in list order and stops
  at the list head (C8); its walk of the parent chain returns the ancestors up to
  the self-parented idle task (C9); in both, a bound smaller than the list gives
  its prefix, never a wrong entry.  A field missing from the running kernel
  leaves its relocation unresolved, so a program that reaches the accessor is
  rejected at load (\<open>vmlinux_load_failure\<close>): it never reaches an accessor as a
  sentinel.  The header declares \<open>linux_bimprm_file\<close> where the code defines
  \<open>linux_binprm_file\<close> (\<open>header_matches_definitions\<close>).

  \<^bold>\<open>Bounds and fuel.\<close>  Widths are those of the 64-bit target: pointers,
  \<open>u64\<close> and \<open>unsigned long\<close> 8 bytes, \<open>int\<close> 4 bytes.  Addresses wrap at
  \<open>2^64\<close>; a well-formed layout keeps every field of an object below \<open>2^64\<close>, so
  that writes to distinct fields do not overlap.  The accessors do not loop: the
  recursions of the reader are over byte counts, member paths and relocation
  lists, all structural.  The walks take their loop bound as fuel; C8 and C9 say
  that the result is the first \<open>fuel\<close> entries of the list, so a bound at least
  the number of children, or the depth of the ancestry, is enough for the whole
  list.

  \<^bold>\<open>Not modelled.\<close>  The generated headers (\<open>vmlinux.h\<close>, \<open>common.bpf.h\<close>);
  the BPF programs that call the accessors, the user-space consumer and the
  loader (outside \<open>src/\<close>'s two files); libbpf's matching of member-name flavours
  (\<open>___suffix\<close>), anonymous embedded members and bitfields; libbpf's poisoning of
  an unresolved instruction, which fails only programs that reach it (the model
  takes every accessor as linked into the loaded program and reachable); the
  architecture's rules for which addresses the helper may read, which the model
  folds into the partial memory map; torn reads, since memory is taken as fixed
  during one copy.
\<close>

end
